theory Spec2Isabelle
  imports Main "HOL-Library.AList"
begin

section \<open>The archive map\<close>

text \<open>
  \<^verbatim>\<open>archive-map.json\<close> as \<^verbatim>\<open>get_json_schema\<close> reads it. A key that the code
  reads without a guard is a field of the record; the one key it tests for
  (\<^verbatim>\<open>"jsonSchema" in file\<close>, in the top-level \<^verbatim>\<open>anyOf\<close>) is optional: \<open>None\<close> is
  an entry without the key, and \<open>Some v\<close> one with the key and the value \<open>v\<close>, a string or
  \<^verbatim>\<open>null\<close> (\<open>None\<close>).
  The app identifier is only ever compared with \<^verbatim>\<open>==\<close>, so its type \<open>'i\<close> is
  left open: \<^verbatim>\<open>validate_data\<close> passes whatever value the client info holds.
\<close>

record schema_file =
  filename :: string
  jsonSchema :: string

record any_of_file =
  any_filename :: string
  any_jsonSchema :: "string option option"

record assessment_key =
  assessmentIdentifier :: string
  assessmentRevision :: int

record assessment = assessment_key +
  files :: "schema_file list"

record 'i app =
  appId :: 'i
  app_assessments :: "assessment_key list"
  default_files :: "schema_file list"
  app_anyOf :: "schema_file list"

record 'i archive_map =
  assessments :: "assessment list"
  apps :: "'i app list"
  anyOf :: "any_of_file list"

section \<open>Schema resolution: \<^verbatim>\<open>get_json_schema\<close>\<close>

record json_schema_obj =
  url :: "string option"
  allowed_app_specific_files :: "bool option"
  error :: "string list option"
  archive_map_version :: "string option"

text \<open>The test of lines 178-179 and 187-188.\<close>

definition same_assessment :: "'a assessment_key_scheme \<Rightarrow> string \<Rightarrow> int \<Rightarrow> bool" where
  "same_assessment a assessment_id assessment_revision =
     (assessmentIdentifier a = assessment_id \<and> assessmentRevision a = assessment_revision)"

text \<open>
  A loop \<^verbatim>\<open>for file in fs: if file["filename"] == file_name: obj["url"] = file["jsonSchema"]; break\<close>
  (lines 192-195 and 196-199).
\<close>

fun scan_files :: "schema_file list \<Rightarrow> string \<Rightarrow> json_schema_obj \<Rightarrow> json_schema_obj" where
  "scan_files [] file_name obj = obj"
| "scan_files (file # fs) file_name obj =
     (if filename file = file_name then obj\<lparr>url := Some (jsonSchema file)\<rparr>
      else scan_files fs file_name obj)"

text \<open>The inner loop of lines 180-183; \<open>Some\<close> is the \<^verbatim>\<open>return\<close>.\<close>

fun scan_assessment_files :: "schema_file list \<Rightarrow> string \<Rightarrow> json_schema_obj \<Rightarrow> json_schema_obj option" where
  "scan_assessment_files [] file_name obj = None"
| "scan_assessment_files (file # fs) file_name obj =
     (if filename file = file_name then Some (obj\<lparr>url := Some (jsonSchema file)\<rparr>)
      else scan_assessment_files fs file_name obj)"

text \<open>The loop of lines 177-183.\<close>

fun scan_assessments :: "assessment list \<Rightarrow> string \<Rightarrow> string \<Rightarrow> int \<Rightarrow> json_schema_obj \<Rightarrow> json_schema_obj option" where
  "scan_assessments [] file_name assessment_id assessment_revision obj = None"
| "scan_assessments (a # as) file_name assessment_id assessment_revision obj =
     (if same_assessment a assessment_id assessment_revision then
        (case scan_assessment_files (files a) file_name obj of
           Some r \<Rightarrow> Some r
         | None \<Rightarrow> scan_assessments as file_name assessment_id assessment_revision obj)
      else scan_assessments as file_name assessment_id assessment_revision obj)"

text \<open>The \<^verbatim>\<open>any([...])\<close> of lines 186-189.\<close>

definition declares :: "'i app \<Rightarrow> string \<Rightarrow> int \<Rightarrow> bool" where
  "declares a assessment_id assessment_revision =
     list_ex (\<lambda>k. same_assessment k assessment_id assessment_revision) (app_assessments a)"

text \<open>The body of the loop over the apps, lines 185-199.\<close>

definition scan_app :: "'i app \<Rightarrow> string \<Rightarrow> 'i \<Rightarrow> string \<Rightarrow> int \<Rightarrow> json_schema_obj \<Rightarrow> json_schema_obj" where
  "scan_app a file_name app_id assessment_id assessment_revision obj =
     (if appId a = app_id then
        (let allowed = declares a assessment_id assessment_revision;
             obj1 = obj\<lparr>allowed_app_specific_files := Some allowed\<rparr>
         in if allowed then
              scan_files (app_anyOf a) file_name (scan_files (default_files a) file_name obj1)
            else obj1)
      else obj)"

fun scan_apps :: "'i app list \<Rightarrow> string \<Rightarrow> 'i \<Rightarrow> string \<Rightarrow> int \<Rightarrow> json_schema_obj \<Rightarrow> json_schema_obj" where
  "scan_apps [] file_name app_id assessment_id assessment_revision obj = obj"
| "scan_apps (a # as) file_name app_id assessment_id assessment_revision obj =
     scan_apps as file_name app_id assessment_id assessment_revision
       (scan_app a file_name app_id assessment_id assessment_revision obj)"

text \<open>
  The loop of lines 202-205: an entry with the file name and with the key \<^verbatim>\<open>jsonSchema\<close>
  gives its value, whatever it is, and ends the loop.
\<close>

fun scan_any_of :: "any_of_file list \<Rightarrow> string \<Rightarrow> json_schema_obj \<Rightarrow> json_schema_obj" where
  "scan_any_of [] file_name obj = obj"
| "scan_any_of (file # fs) file_name obj =
     (if any_filename file = file_name
      then (case any_jsonSchema file of
              Some v \<Rightarrow> obj\<lparr>url := v\<rparr>
            | None \<Rightarrow> scan_any_of fs file_name obj)
      else scan_any_of fs file_name obj)"

text \<open>
  The object of lines 171-176. Its argument is what \<^verbatim>\<open>os.environ.get("archive_map_version")\<close>
  returns, the one input that \<^verbatim>\<open>get_json_schema\<close> reads from outside its parameters.
\<close>

definition empty_obj :: "string option \<Rightarrow> json_schema_obj" where
  "empty_obj env_version =
     \<lparr>url = None, allowed_app_specific_files = None, error = None,
      archive_map_version = env_version\<rparr>"

definition get_json_schema ::
  "string option \<Rightarrow> 'i archive_map \<Rightarrow> string \<Rightarrow> 'i \<Rightarrow> string \<Rightarrow> int \<Rightarrow> json_schema_obj" where
  "get_json_schema env_version archive_map file_name app_id assessment_id assessment_revision =
     (let json_schema_obj = empty_obj env_version
      in case scan_assessments (assessments archive_map) file_name assessment_id assessment_revision
                json_schema_obj of
           Some r \<Rightarrow> r
         | None \<Rightarrow>
             (let obj = scan_apps (apps archive_map) file_name app_id assessment_id
                          assessment_revision json_schema_obj
              in if url obj \<noteq> None then obj
                 else scan_any_of (anyOf archive_map) file_name obj))"

section \<open>Values, exceptions and collaborators\<close>

text \<open>A decoded JSON document (\<^verbatim>\<open>json.loads\<close>); numbers are the integers.\<close>

datatype json = JNull | JBool bool | JInt int | JStr string | JArr "json list"
  | JObj "(string \<times> json) list"

text \<open>
  The exceptions the handler can raise. \<open>External\<close> is an exception raised inside a
  collaborator (requests, boto3, synapseclient, zipfile, jsonschema), named by its text.
\<close>

datatype py_error = KeyError string | IndexError | TypeError | ValueError | JSONDecodeError
  | External string

definition and_then :: "py_error + 'a \<Rightarrow> ('a \<Rightarrow> py_error + 'b) \<Rightarrow> py_error + 'b" where
  "and_then m f = (case m of Inl e \<Rightarrow> Inl e | Inr x \<Rightarrow> f x)"

type_synonym sts_token = "(string \<times> string) list"

record message_parameters =
  source_bucket :: string
  source_key :: string
  raw_folder_id :: string

text \<open>
  What \<^verbatim>\<open>get_object\<close> returns: the header metadata and the body, a zip archive.
\<close>

record s3_object =
  Metadata :: "(string \<times> string) list"
  Body :: string

text \<open>
  The library and service calls of the module, as parameters of the model:
  \<^item> \<open>environ\<close>: \<^verbatim>\<open>os.environ.get\<close>;
  \<^item> \<open>json_loads\<close>: \<^verbatim>\<open>json.loads\<close> and \<^verbatim>\<open>json.load\<close>, \<open>None\<close> for \<^verbatim>\<open>JSONDecodeError\<close>;
  \<^item> \<open>py_int\<close>: \<^verbatim>\<open>int\<close> of a string, \<open>None\<close> for \<^verbatim>\<open>ValueError\<close>;
  \<^item> \<open>requests_get_json\<close>: \<^verbatim>\<open>requests.get(url).json()\<close>;
  \<^item> \<open>zip_members\<close>: \<^verbatim>\<open>zipfile.ZipFile\<close>, the members (name, content) in
    \<^verbatim>\<open>namelist()\<close> order;
  \<^item> \<open>jsonschema_errors\<close>: the messages of \<^verbatim>\<open>validator.iter_errors\<close>;
  \<^item> \<open>get_sts_storage_token\<close>, \<open>get_object\<close>, \<open>start_workflow_run\<close>,
    \<open>put_workflow_run_properties\<close>: the Synapse, S3 and Glue calls.
\<close>

record externals =
  environ :: "string \<Rightarrow> string option"
  json_loads :: "string \<Rightarrow> json option"
  py_int :: "string \<Rightarrow> int option"
  requests_get_json :: "string \<Rightarrow> py_error + json"
  zip_members :: "string \<Rightarrow> py_error + (string \<times> string) list"
  jsonschema_errors :: "json \<Rightarrow> json \<Rightarrow> string \<Rightarrow> py_error + string list"
  get_sts_storage_token :: "string \<Rightarrow> py_error + sts_token"
  get_object :: "sts_token \<Rightarrow> string \<Rightarrow> string \<Rightarrow> py_error + s3_object"
  start_workflow_run :: "string \<Rightarrow> py_error + string"
  put_workflow_run_properties :: "string \<Rightarrow> string \<Rightarrow> message_parameters list \<Rightarrow> py_error + unit"

text \<open>\<^verbatim>\<open>d[k]\<close> on a dict with string keys.\<close>

definition getitem :: "(string \<times> 'a) list \<Rightarrow> string \<Rightarrow> py_error + 'a" where
  "getitem d k = (case map_of d k of None \<Rightarrow> Inl (KeyError k) | Some v \<Rightarrow> Inr v)"

text \<open>\<^verbatim>\<open>v[k]\<close> on a decoded JSON value, \<open>k\<close> a string.\<close>

fun json_getitem :: "json \<Rightarrow> string \<Rightarrow> py_error + json" where
  "json_getitem (JObj d) k = getitem d k"
| "json_getitem v k = Inl TypeError"

section \<open>Client info: \<^verbatim>\<open>parse_client_info_metadata\<close>\<close>

text \<open>
  \<^verbatim>\<open>re.search(key + "[^,]+", s)\<close> followed by \<^verbatim>\<open>.group()\<close>: the leftmost place where
  \<open>key\<close> is followed by at least one character other than a comma, and all of them.
\<close>

fun re_search :: "string \<Rightarrow> string \<Rightarrow> string option" where
  "re_search key [] = None"
| "re_search key (c # cs) =
     (if take (length key) (c # cs) = key
         \<and> takeWhile (\<lambda>x. x \<noteq> CHR '','') (drop (length key) (c # cs)) \<noteq> []
      then Some (key @ takeWhile (\<lambda>x. x \<noteq> CHR '','') (drop (length key) (c # cs)))
      else re_search key cs)"

text \<open>\<^verbatim>\<open>s.split(sep)\<close> for a separator of one character.\<close>

fun split :: "char \<Rightarrow> string \<Rightarrow> string list" where
  "split sep [] = [[]]"
| "split sep (c # cs) =
     (if c = sep then [] # split sep cs
      else (case split sep cs of [] \<Rightarrow> [[c]] | w # ws \<Rightarrow> (c # w) # ws))"

text \<open>\<^verbatim>\<open>xs[1]\<close>.\<close>

fun item1 :: "'a list \<Rightarrow> py_error + 'a" where
  "item1 (x # y # ys) = Inr y"
| "item1 xs = Inl IndexError"

text \<open>Lines 50-61, for one of the two keys: \<open>None\<close> when the search finds nothing.\<close>

definition search_field :: "string \<Rightarrow> string \<Rightarrow> py_error + string option" where
  "search_field key client_info_str =
     (case re_search key client_info_str of
        None \<Rightarrow> Inr None
      | Some g \<Rightarrow> and_then (item1 (split CHR ''='' g)) (\<lambda>v. Inr (Some v)))"

text \<open>\<^verbatim>\<open>int(app_version)\<close> of line 63: \<^verbatim>\<open>int(None)\<close> is a \<^verbatim>\<open>TypeError\<close>.\<close>

definition int_of :: "externals \<Rightarrow> string option \<Rightarrow> py_error + int" where
  "int_of ext v =
     (case v of
        None \<Rightarrow> Inl TypeError
      | Some s \<Rightarrow> (case py_int ext s of None \<Rightarrow> Inl ValueError | Some n \<Rightarrow> Inr n))"

definition parse_client_info_metadata :: "externals \<Rightarrow> string \<Rightarrow> py_error + json" where
  "parse_client_info_metadata ext client_info_str =
     (case json_loads ext client_info_str of
        Some client_info \<Rightarrow> Inr client_info
      | None \<Rightarrow>
          and_then (search_field ''appVersion='' client_info_str) (\<lambda>app_version.
          and_then (search_field ''osName='' client_info_str) (\<lambda>os_name.
          and_then (int_of ext app_version) (\<lambda>n.
            Inr (JObj [(''appVersion'', JInt n),
                       (''osName'', case os_name of None \<Rightarrow> JNull | Some x \<Rightarrow> JStr x),
                       (''appName'', JStr ''mobile-toolbox'')])))))"

section \<open>Validation of one record: \<^verbatim>\<open>validate_data\<close>\<close>

record validation_result =
  assessmendId :: string
  vr_assessmentRevision :: int
  vr_appId :: json
  recordId :: string
  errors :: "(string \<times> json_schema_obj) list"

text \<open>\<^verbatim>\<open>os.path.basename\<close> and \<^verbatim>\<open>os.path.dirname\<close> (posixpath).\<close>

definition basename :: "string \<Rightarrow> string" where
  "basename p = rev (takeWhile (\<lambda>c. c \<noteq> CHR ''/'') (rev p))"

definition dirname :: "string \<Rightarrow> string" where
  "dirname p =
     (let head = rev (dropWhile (\<lambda>c. c \<noteq> CHR ''/'') (rev p))
      in if head \<noteq> [] \<and> \<not> list_all (\<lambda>c. c = CHR ''/'') head
         then rev (dropWhile (\<lambda>c. c = CHR ''/'') (rev head))
         else head)"

text \<open>
  Lines 108-118: the header metadata of the S3 object, read in the order of the source.
\<close>

definition read_metadata :: "externals \<Rightarrow> s3_object \<Rightarrow> py_error + validation_result" where
  "read_metadata ext s3_obj =
     and_then (getitem (Metadata s3_obj) ''assessmentid'') (\<lambda>assessment_id.
     and_then (getitem (Metadata s3_obj) ''assessmentrevision'') (\<lambda>r.
     and_then (int_of ext (Some r)) (\<lambda>assessment_revision.
     and_then (getitem (Metadata s3_obj) ''clientinfo'') (\<lambda>c.
     and_then (parse_client_info_metadata ext c) (\<lambda>client_info.
     and_then (json_getitem client_info ''appName'') (\<lambda>app_id.
     and_then (getitem (Metadata s3_obj) ''recordid'') (\<lambda>record_id.
       Inr \<lparr>assessmendId = assessment_id, vr_assessmentRevision = assessment_revision,
            vr_appId = app_id, recordId = record_id, errors = []\<rparr>)))))))"

text \<open>\<^verbatim>\<open>z.open(json_path)\<close>: of two members with one name, the later one.\<close>

definition z_open :: "(string \<times> string) list \<Rightarrow> string \<Rightarrow> py_error + string" where
  "z_open z json_path = getitem (rev z) json_path"

text \<open>\<^verbatim>\<open>json.load(p)\<close>.\<close>

definition json_load :: "externals \<Rightarrow> string \<Rightarrow> py_error + json" where
  "json_load ext p = (case json_loads ext p of None \<Rightarrow> Inl JSONDecodeError | Some j \<Rightarrow> Inr j)"

text \<open>Lines 209-225 are calls of the jsonschema library only.\<close>

definition validate_against_schema ::
  "externals \<Rightarrow> json \<Rightarrow> json \<Rightarrow> string \<Rightarrow> py_error + string list" where
  "validate_against_schema ext data schema base_uri = jsonschema_errors ext data schema base_uri"

text \<open>
  The body of the loop over the members, lines 123-149. A \<^verbatim>\<open>continue\<close> returns the
  validation result as it is.
\<close>

definition validate_file ::
  "externals \<Rightarrow> json archive_map \<Rightarrow> (string \<times> string) list \<Rightarrow> validation_result \<Rightarrow> string
     \<Rightarrow> py_error + validation_result" where
  "validate_file ext archive_map z validation_result json_path =
     (let file_name = basename json_path;
          json_schema_obj = get_json_schema (environ ext ''archive_map_version'') archive_map
             file_name (vr_appId validation_result) (assessmendId validation_result)
             (vr_assessmentRevision validation_result)
      in case url json_schema_obj of
           None \<Rightarrow> Inr validation_result
         | Some u \<Rightarrow>
             and_then (requests_get_json ext u) (\<lambda>json_schema.
             let base_uri = dirname u in
             and_then (z_open z json_path) (\<lambda>p.
             and_then (json_load ext p) (\<lambda>j.
               if json_path = ''taskData.json'' then Inr validation_result
               else
                 and_then (validate_against_schema ext j json_schema base_uri) (\<lambda>all_errors.
                   if length all_errors > 0
                   then Inr (validation_result\<lparr>errors :=
                          AList.update file_name (json_schema_obj\<lparr>error := Some all_errors\<rparr>)
                            (errors validation_result)\<rparr>)
                   else Inr validation_result)))))"

text \<open>The loop of line 122.\<close>

fun validate_files ::
  "externals \<Rightarrow> json archive_map \<Rightarrow> (string \<times> string) list \<Rightarrow> validation_result \<Rightarrow> string list
     \<Rightarrow> py_error + validation_result" where
  "validate_files ext archive_map z validation_result [] = Inr validation_result"
| "validate_files ext archive_map z validation_result (json_path # contents) =
     and_then (validate_file ext archive_map z validation_result json_path)
       (\<lambda>r. validate_files ext archive_map z r contents)"

definition validate_data ::
  "externals \<Rightarrow> message_parameters \<Rightarrow> json archive_map \<Rightarrow> (string \<times> sts_token) list
     \<Rightarrow> py_error + validation_result" where
  "validate_data ext message_parameters archive_map sts_tokens =
     and_then (getitem sts_tokens (raw_folder_id message_parameters)) (\<lambda>token.
     and_then (get_object ext token (source_bucket message_parameters)
                 (source_key message_parameters)) (\<lambda>s3_obj.
     and_then (read_metadata ext s3_obj) (\<lambda>validation_result.
     and_then (zip_members ext (Body s3_obj)) (\<lambda>z.
       validate_files ext archive_map z validation_result (map fst z)))))"

section \<open>The handler: \<^verbatim>\<open>lambda_handler\<close>\<close>

text \<open>
  One element of \<^verbatim>\<open>event["Records"]\<close> with its two JSON envelopes decoded: the fields
  of \<^verbatim>\<open>message\<close> that the handler reads. \<open>studyRecords\<close> is the key list of the dict.
\<close>

record sns_message =
  s3Bucket :: string
  s3Key :: string
  rawFolderId :: string
  studyRecords :: "string list"
  message_appId :: string

text \<open>
  \<^verbatim>\<open>messages\<close>, a dict of dicts of lists, in insertion order.
\<close>

type_synonym batches = "(string \<times> (string \<times> message_parameters list) list) list"

text \<open>The handler's variables \<^verbatim>\<open>messages\<close> and \<^verbatim>\<open>sts_tokens\<close>.\<close>

record handler_state =
  messages :: batches
  sts_tokens :: "(string \<times> sts_token) list"

text \<open>
  Lines 253-254. The body of \<^verbatim>\<open>mark_as_invalid\<close> is \<^verbatim>\<open>pass\<close>: it returns \<^verbatim>\<open>None\<close>, changes
  no variable and calls nothing.
\<close>

definition mark_as_invalid :: "validation_result \<Rightarrow> string option \<Rightarrow> unit" where
  "mark_as_invalid validation_result sqs_queue = ()"

definition update_sts_tokens ::
  "externals \<Rightarrow> string \<Rightarrow> (string \<times> sts_token) list \<Rightarrow> py_error + (string \<times> sts_token) list" where
  "update_sts_tokens ext synapse_data_folder tokens =
     (if map_of tokens synapse_data_folder = None
      then and_then (get_sts_storage_token ext synapse_data_folder) (\<lambda>sts_token.
             Inr (AList.update synapse_data_folder sts_token tokens))
      else Inr tokens)"

text \<open>
  The body of the loop over the studies, lines 309-316. For a new app, line 312 stores
  \<^verbatim>\<open>{study: []}\<close> and line 314 appends to that list.
\<close>

definition add_study :: "string \<Rightarrow> message_parameters \<Rightarrow> batches \<Rightarrow> string \<Rightarrow> batches" where
  "add_study app message_parameters msgs study =
     (case map_of msgs app of
        None \<Rightarrow> AList.update app [(study, [] @ [message_parameters])] msgs
      | Some by_study \<Rightarrow>
          (case map_of by_study study of
             Some l \<Rightarrow> AList.update app (AList.update study (l @ [message_parameters]) by_study) msgs
           | None \<Rightarrow> AList.update app (AList.update study [message_parameters] by_study) msgs))"

text \<open>Lines 288-292.\<close>

definition message_parameters_of :: "sns_message \<Rightarrow> message_parameters" where
  "message_parameters_of message =
     \<lparr>source_bucket = s3Bucket message, source_key = s3Key message,
      raw_folder_id = rawFolderId message\<rparr>"

text \<open>Lines 306-316: the loop over the studies of one message.\<close>

definition add_record :: "batches \<Rightarrow> sns_message \<Rightarrow> batches" where
  "add_record msgs message =
     foldl (add_study (message_appId message) (message_parameters_of message)) msgs
       (studyRecords message)"

text \<open>The body of the loop over the records, lines 286-316.\<close>

definition handle_record ::
  "externals \<Rightarrow> json archive_map \<Rightarrow> handler_state \<Rightarrow> sns_message \<Rightarrow> py_error + handler_state" where
  "handle_record ext archive_map st message =
     (let message_parameters = message_parameters_of message
      in and_then (update_sts_tokens ext (raw_folder_id message_parameters) (sts_tokens st)) (\<lambda>tokens.
         and_then (validate_data ext message_parameters archive_map tokens) (\<lambda>validation_result.
           let marked = (if length (errors validation_result) > 0
                         then mark_as_invalid validation_result (environ ext ''invalid_sqs'')
                         else ())
           in Inr \<lparr>messages = add_record (messages st) message, sts_tokens = tokens\<rparr>)))"

fun handle_records ::
  "externals \<Rightarrow> json archive_map \<Rightarrow> handler_state \<Rightarrow> sns_message list \<Rightarrow> py_error + handler_state" where
  "handle_records ext archive_map st [] = Inr st"
| "handle_records ext archive_map st (record # records) =
     and_then (handle_record ext archive_map st record)
       (\<lambda>st'. handle_records ext archive_map st' records)"

text \<open>The name of line 319; an unset \<^verbatim>\<open>NAMESPACE\<close> is formatted as \<^verbatim>\<open>None\<close>.\<close>

definition workflow_name :: "string option \<Rightarrow> string \<Rightarrow> string \<Rightarrow> string" where
  "workflow_name namespace app study =
     (case namespace of None \<Rightarrow> ''None'' | Some n \<Rightarrow> n) @ ''-'' @ app @ ''-'' @ study
       @ ''-S3ToJsonWorkflow''"

text \<open>
  Lines 317-328: one workflow run for each study of each app. The result lists the runs
  started, each with the messages put as its property.
\<close>

fun start_workflows ::
  "externals \<Rightarrow> (string \<times> message_parameters list) list
     \<Rightarrow> py_error + (string \<times> message_parameters list) list" where
  "start_workflows ext [] = Inr []"
| "start_workflows ext ((name, msgs) # rest) =
     and_then (start_workflow_run ext name) (\<lambda>run_id.
     and_then (put_workflow_run_properties ext name run_id msgs) (\<lambda>_.
     and_then (start_workflows ext rest) (\<lambda>started. Inr ((name, msgs) # started))))"

definition workflows :: "string option \<Rightarrow> batches \<Rightarrow> (string \<times> message_parameters list) list" where
  "workflows namespace msgs =
     concat (map (\<lambda>(app, by_study).
               map (\<lambda>(study, l). (workflow_name namespace app study, l)) by_study) msgs)"

text \<open>The variables of the handler before the first record (lines 282-283).\<close>

definition initial_state :: handler_state where
  "initial_state = \<lparr>messages = [], sts_tokens = []\<rparr>"

text \<open>
  \<^verbatim>\<open>lambda_handler\<close> from line 282 on: the archive map has been fetched and the
  clients exist. The result is the final state of the loop and the workflow runs made.
\<close>

definition lambda_handler ::
  "externals \<Rightarrow> json archive_map \<Rightarrow> sns_message list
     \<Rightarrow> py_error + handler_state \<times> (string \<times> message_parameters list) list" where
  "lambda_handler ext archive_map records =
     and_then (handle_records ext archive_map initial_state records) (\<lambda>st.
     and_then (start_workflows ext (workflows (environ ext ''NAMESPACE'') (messages st))) (\<lambda>started.
       Inr (st, started)))"

section \<open>Notions of the specification\<close>

text \<open>The batch of an app and a study: the sequence stored under the two keys, if any.\<close>

definition batch :: "batches \<Rightarrow> string \<Rightarrow> string \<Rightarrow> message_parameters list" where
  "batch msgs app study =
     (case map_of msgs app of
        None \<Rightarrow> []
      | Some by_study \<Rightarrow> (case map_of by_study study of None \<Rightarrow> [] | Some l \<Rightarrow> l))"

text \<open>The resolution that \<^verbatim>\<open>validate_data\<close> asks for a member of the archive (lines 123-129).\<close>

definition resolution ::
  "externals \<Rightarrow> json archive_map \<Rightarrow> validation_result \<Rightarrow> string \<Rightarrow> json_schema_obj" where
  "resolution ext am vr json_path =
     get_json_schema (environ ext ''archive_map_version'') am (basename json_path)
       (vr_appId vr) (assessmendId vr) (vr_assessmentRevision vr)"

text \<open>A call that returns rather than raises.\<close>

definition returns :: "py_error + 'a \<Rightarrow> bool" where
  "returns m = (case m of Inl e \<Rightarrow> False | Inr x \<Rightarrow> True)"

text \<open>
  A member that the loop passes over: it has no resolvable schema, or it is the task-data
  entry, its schema document is fetched and its content decodes.
\<close>

definition skipped ::
  "externals \<Rightarrow> json archive_map \<Rightarrow> (string \<times> string) list \<Rightarrow> validation_result \<Rightarrow> string \<Rightarrow> bool" where
  "skipped ext am z vr json_path =
     (case url (resolution ext am vr json_path) of
        None \<Rightarrow> True
      | Some u \<Rightarrow> json_path = ''taskData.json''
          \<and> returns (requests_get_json ext u)
          \<and> returns (and_then (z_open z json_path) (json_load ext)))"

section \<open>Example data\<close>

text \<open>The archive map of the specification's first example, and variants of it.\<close>

definition example_file :: schema_file where
  "example_file = \<lparr>filename = ''x.json'', jsonSchema = ''http://s/a1.json''\<rparr>"

definition example_assessment :: assessment where
  "example_assessment =
     \<lparr>assessmentIdentifier = ''A1'', assessmentRevision = 1, files = [example_file]\<rparr>"

definition example_app :: "string app" where
  "example_app =
     \<lparr>appId = ''app1'',
      app_assessments = [\<lparr>assessmentIdentifier = ''A1'', assessmentRevision = 1\<rparr>],
      default_files = [],
      app_anyOf = [\<lparr>filename = ''x.json'', jsonSchema = ''http://s/default.json''\<rparr>]\<rparr>"

definition spec_example_map :: "string archive_map" where
  "spec_example_map = \<lparr>assessments = [example_assessment], apps = [example_app], anyOf = []\<rparr>"

text \<open>An app whose \<^verbatim>\<open>default.files\<close> and \<^verbatim>\<open>anyOf\<close> both list \<^verbatim>\<open>x.json\<close>.\<close>

definition both_lists_app :: "string app" where
  "both_lists_app =
     \<lparr>appId = ''app1'',
      app_assessments = [\<lparr>assessmentIdentifier = ''A1'', assessmentRevision = 1\<rparr>],
      default_files = [\<lparr>filename = ''x.json'', jsonSchema = ''http://s/default.json''\<rparr>],
      app_anyOf = [\<lparr>filename = ''x.json'', jsonSchema = ''http://s/anyof.json''\<rparr>]\<rparr>"

definition both_lists_map :: "string archive_map" where
  "both_lists_map = \<lparr>assessments = [], apps = [both_lists_app], anyOf = []\<rparr>"

text \<open>An app that declares no assessment.\<close>

definition undeclared_app :: "string app" where
  "undeclared_app =
     \<lparr>appId = ''app1'', app_assessments = [],
      default_files = [\<lparr>filename = ''x.json'', jsonSchema = ''http://s/default.json''\<rparr>],
      app_anyOf = [\<lparr>filename = ''x.json'', jsonSchema = ''http://s/anyof.json''\<rparr>]\<rparr>"

definition undeclared_map :: "string archive_map" where
  "undeclared_map = \<lparr>assessments = [], apps = [undeclared_app], anyOf = []\<rparr>"

definition undeclared_assessed_map :: "string archive_map" where
  "undeclared_assessed_map =
     \<lparr>assessments = [example_assessment], apps = [undeclared_app], anyOf = []\<rparr>"

definition undeclared_twice_map :: "string archive_map" where
  "undeclared_twice_map =
     \<lparr>assessments = [], apps = [undeclared_app, example_app], anyOf = []\<rparr>"

text \<open>
  Collaborators for the examples: a decoder that knows two documents, decimal numerals,
  one schema document that can be fetched, five archives, a validator that accepts the
  objects, and six stored objects.
\<close>

definition decimal :: "string \<Rightarrow> int option" where
  "decimal s =
     (if s \<noteq> [] \<and> list_all (\<lambda>c. c \<in> set ''0123456789'') s
      then Some (foldl (\<lambda>n c. 10 * n + (int (of_char c) - 48)) 0 s)
      else None)"

definition example_object :: "string \<Rightarrow> string \<Rightarrow> string \<Rightarrow> string \<Rightarrow> s3_object" where
  "example_object assessment_id client_info record_id body =
     \<lparr>Metadata = [(''assessmentid'', assessment_id), (''assessmentrevision'', ''1''),
                  (''clientinfo'', client_info), (''recordid'', record_id)],
      Body = body\<rparr>"

definition example_objects :: "(string \<times> s3_object) list" where
  "example_objects =
     [(''valid.zip'', example_object ''A1'' ''appVersion=42,osName=iOS'' ''r1'' ''valid''),
      (''invalid.zip'', example_object ''A1'' ''appVersion=42'' ''r2'' ''invalid''),
      (''unfetchable.zip'',
         example_object ''A2'' ''appVersion=42,osName=iOS'' ''r3'' ''unfetchable''),
      (''taskdata.zip'', example_object ''A2'' ''appVersion=42,osName=iOS'' ''r4'' ''taskdata''),
      (''garbage.zip'', example_object ''A1'' ''garbage'' ''r5'' ''valid''),
      (''late.zip'', example_object ''A2'' ''appVersion=42,osName=iOS'' ''r6'' ''late'')]"

definition example_archives :: "(string \<times> (string \<times> string) list) list" where
  "example_archives =
     [(''valid'', [(''taskData.json'', ''{}''), (''unknown.json'', ''{}'')]),
      (''invalid'', [(''x.json'', ''[]'')]),
      (''unfetchable'', [(''x.json'', ''{}'')]),
      (''taskdata'', [(''taskData.json'', ''{}'')]),
      (''late'', [(''unknown.json'', ''{}''), (''x.json'', ''{}'')])]"

definition example_ext :: externals where
  "example_ext =
     \<lparr>environ = map_of [(''archive_map_version'', ''v1''), (''NAMESPACE'', ''ns''),
                         (''invalid_sqs'', ''invalid-queue'')],
      json_loads = map_of [(''{}'', JObj []), (''[]'', JArr [])],
      py_int = decimal,
      requests_get_json =
        (\<lambda>u. if u = ''http://s/ok.json'' then Inr (JObj [])
             else Inl (External ''ConnectionError'')),
      zip_members =
        (\<lambda>b. case map_of example_archives b of
               None \<Rightarrow> Inl (External ''BadZipFile'') | Some z \<Rightarrow> Inr z),
      jsonschema_errors =
        (\<lambda>data schema base_uri.
           Inr (case data of JObj d \<Rightarrow> [] | _ \<Rightarrow> [''not of type object''])),
      get_sts_storage_token = (\<lambda>folder. Inr [(''aws_session_token'', folder)]),
      get_object =
        (\<lambda>token bucket key. case map_of example_objects key of
               None \<Rightarrow> Inl (External ''NoSuchKey'') | Some obj \<Rightarrow> Inr obj),
      start_workflow_run = (\<lambda>name. Inr ''run''),
      put_workflow_run_properties = (\<lambda>name run_id msgs. Inr ())\<rparr>"

definition example_map :: "json archive_map" where
  "example_map =
     \<lparr>assessments =
        [\<lparr>assessmentIdentifier = ''A1'', assessmentRevision = 1,
          files = [\<lparr>filename = ''x.json'', jsonSchema = ''http://s/ok.json''\<rparr>,
                   \<lparr>filename = ''taskData.json'', jsonSchema = ''http://s/ok.json''\<rparr>]\<rparr>,
         \<lparr>assessmentIdentifier = ''A2'', assessmentRevision = 1,
          files = [\<lparr>filename = ''x.json'', jsonSchema = ''http://s/gone.json''\<rparr>,
                   \<lparr>filename = ''taskData.json'', jsonSchema = ''http://s/gone.json''\<rparr>]\<rparr>],
      apps = [],
      anyOf = []\<rparr>"

definition example_record :: "string \<Rightarrow> string list \<Rightarrow> sns_message" where
  "example_record key studies =
     \<lparr>s3Bucket = ''bucket'', s3Key = key, rawFolderId = ''syn1'', studyRecords = studies,
      message_appId = ''app1''\<rparr>"

definition example_parameters :: "string \<Rightarrow> message_parameters" where
  "example_parameters key =
     \<lparr>source_bucket = ''bucket'', source_key = key, raw_folder_id = ''syn1''\<rparr>"

definition example_tokens :: "(string \<times> sts_token) list" where
  "example_tokens = [(''syn1'', [(''aws_session_token'', ''syn1'')])]"

definition example_result :: "string \<Rightarrow> string \<Rightarrow> validation_result" where
  "example_result assessment_id record_id =
     \<lparr>assessmendId = assessment_id, vr_assessmentRevision = 1,
      vr_appId = JStr ''mobile-toolbox'', recordId = record_id, errors = []\<rparr>"

text \<open>
  What the handler leaves after a valid record of study \<^verbatim>\<open>s1\<close> and an invalid record of
  studies \<^verbatim>\<open>s1\<close> and \<^verbatim>\<open>s2\<close>.
\<close>

definition invalid_result :: validation_result where
  "invalid_result =
     (example_result ''A1'' ''r2'')\<lparr>errors :=
        [(''x.json'',
          \<lparr>url = Some ''http://s/ok.json'', allowed_app_specific_files = None,
           error = Some [''not of type object''], archive_map_version = Some ''v1''\<rparr>)]\<rparr>"

definition example_records :: "sns_message list" where
  "example_records =
     [example_record ''valid.zip'' [''s1''], example_record ''invalid.zip'' [''s1'', ''s2'']]"

definition example_batches :: batches where
  "example_batches =
     [(''app1'',
       [(''s1'', [example_parameters ''valid.zip'', example_parameters ''invalid.zip'']),
        (''s2'', [example_parameters ''invalid.zip''])])]"

definition example_final_state :: handler_state where
  "example_final_state = \<lparr>messages = example_batches, sts_tokens = example_tokens\<rparr>"

definition example_started :: "(string \<times> message_parameters list) list" where
  "example_started =
     [(''ns-app1-s1-S3ToJsonWorkflow'',
         [example_parameters ''valid.zip'', example_parameters ''invalid.zip'']),
      (''ns-app1-s2-S3ToJsonWorkflow'', [example_parameters ''invalid.zip''])]"

section \<open>Properties of the schema resolver\<close>

lemma scan_assessment_files_Some:
  "f \<in> set fs \<Longrightarrow> filename f = fn \<Longrightarrow>
   \<exists>g \<in> set fs. filename g = fn
      \<and> scan_assessment_files fs fn obj = Some (obj\<lparr>url := Some (jsonSchema g)\<rparr>)"
  by (induction fs) auto

lemma scan_assessment_files_result:
  "scan_assessment_files fs fn obj = Some r \<Longrightarrow>
   \<exists>g \<in> set fs. filename g = fn \<and> r = obj\<lparr>url := Some (jsonSchema g)\<rparr>"
  by (induction fs) (auto split: if_splits)

lemma scan_assessments_Some:
  "a \<in> set as \<Longrightarrow> same_assessment a aid rv \<Longrightarrow> f \<in> set (files a) \<Longrightarrow> filename f = fn \<Longrightarrow>
   \<exists>b \<in> set as. \<exists>g \<in> set (files b). same_assessment b aid rv \<and> filename g = fn \<and>
      scan_assessments as fn aid rv obj = Some (obj\<lparr>url := Some (jsonSchema g)\<rparr>)"
proof (induction as)
  case Nil
  then show ?case by simp
next
  case (Cons x xs)
  show ?case
  proof (cases "same_assessment x aid rv")
    case False
    with Cons have "a \<in> set xs" by auto
    from Cons.IH [OF this Cons.prems(2-4)] False show ?thesis by auto
  next
    case True
    show ?thesis
    proof (cases "scan_assessment_files (files x) fn obj")
      case (Some r)
      from scan_assessment_files_result [OF Some] True Some show ?thesis by auto
    next
      case None
      have "a \<noteq> x"
      proof
        assume "a = x"
        with Cons.prems scan_assessment_files_Some [of f "files x" fn obj] None
        show False by auto
      qed
      with Cons have "a \<in> set xs" by auto
      from Cons.IH [OF this Cons.prems(2-4)] True None show ?thesis by auto
    qed
  qed
qed

text \<open>
  Claim C2. If an entry of the archive map's \<^verbatim>\<open>assessments\<close> has the given identifier and
  revision and lists the file name, the resolver returns the \<^verbatim>\<open>jsonSchema\<close> of such an
  entry (the first one in the order of the lists) at once: the flag is still unset, and
  the result is the same whatever the apps and the top-level \<^verbatim>\<open>anyOf\<close> declare.
\<close>

theorem assessment_tier_dominates:
  assumes "a \<in> set (assessments am)"
    and "assessmentIdentifier a = aid" and "assessmentRevision a = rv"
    and "f \<in> set (files a)" and "filename f = fn"
  shows "\<exists>b \<in> set (assessments am). \<exists>g \<in> set (files b).
           assessmentIdentifier b = aid \<and> assessmentRevision b = rv \<and> filename g = fn \<and>
           (\<forall>as fs. get_json_schema v (am\<lparr>apps := as, anyOf := fs\<rparr>) fn app_id aid rv =
             \<lparr>url = Some (jsonSchema g), allowed_app_specific_files = None, error = None,
              archive_map_version = v\<rparr>) \<and>
           get_json_schema v am fn app_id aid rv =
             \<lparr>url = Some (jsonSchema g), allowed_app_specific_files = None, error = None,
              archive_map_version = v\<rparr>"
proof -
  have "same_assessment a aid rv" using assms by (simp add: same_assessment_def)
  from scan_assessments_Some [OF assms(1) this assms(4,5)]
  obtain b g where bg: "b \<in> set (assessments am)" "g \<in> set (files b)"
      "same_assessment b aid rv" "filename g = fn"
      "scan_assessments (assessments am) fn aid rv (empty_obj v) =
         Some ((empty_obj v)\<lparr>url := Some (jsonSchema g)\<rparr>)"
    by blast
  have "get_json_schema v (am\<lparr>apps := as, anyOf := fs\<rparr>) fn app_id aid rv =
          \<lparr>url = Some (jsonSchema g), allowed_app_specific_files = None, error = None,
           archive_map_version = v\<rparr>" for as fs
    by (simp add: get_json_schema_def bg(5)) (simp add: empty_obj_def)
  moreover have "get_json_schema v am fn app_id aid rv =
          \<lparr>url = Some (jsonSchema g), allowed_app_specific_files = None, error = None,
           archive_map_version = v\<rparr>"
    by (simp add: get_json_schema_def bg(5)) (simp add: empty_obj_def)
  ultimately show ?thesis
    using bg unfolding same_assessment_def by blast
qed

text \<open>
  The first example of the specification: \<^verbatim>\<open>x.json\<close> resolves to the schema of the
  assessment, not to the one in the app's \<^verbatim>\<open>anyOf\<close>.
\<close>

theorem assessment_tier_dominates_witness:
  "example_assessment \<in> set (assessments spec_example_map)
   \<and> assessmentIdentifier example_assessment = ''A1''
   \<and> assessmentRevision example_assessment = 1
   \<and> example_file \<in> set (files example_assessment)
   \<and> filename example_file = ''x.json''
   \<and> get_json_schema None spec_example_map ''x.json'' ''app1'' ''A1'' 1 =
       \<lparr>url = Some ''http://s/a1.json'', allowed_app_specific_files = None, error = None,
        archive_map_version = None\<rparr>"
proof -
  have h1: "example_assessment \<in> set (assessments spec_example_map)"
    by (simp add: spec_example_map_def)
  have h2: "assessmentIdentifier example_assessment = ''A1''"
    and h3: "assessmentRevision example_assessment = 1"
    and h4: "example_file \<in> set (files example_assessment)"
    and h5: "filename example_file = ''x.json''"
    by (simp_all add: example_assessment_def example_file_def)
  from assessment_tier_dominates [OF h1 h2 h3 h4 h5, of None "''app1''"]
  have "get_json_schema None spec_example_map ''x.json'' ''app1'' ''A1'' 1 =
       \<lparr>url = Some ''http://s/a1.json'', allowed_app_specific_files = None, error = None,
        archive_map_version = None\<rparr>"
    by (auto simp: spec_example_map_def example_assessment_def example_file_def)
  with h1 h2 h3 h4 h5 show ?thesis by simp
qed

text \<open>
  Claim C1. In the app tier the first match of \<^verbatim>\<open>default.files\<close> does not win: the loop
  over the app's \<^verbatim>\<open>anyOf\<close> runs whether or not a URL was found, and its first match
  replaces the URL. Here the app lists \<^verbatim>\<open>x.json\<close> in both, and the resolver returns the
  schema of \<^verbatim>\<open>anyOf\<close>.
\<close>

theorem app_anyOf_replaces_default:
  "get_json_schema None both_lists_map ''x.json'' ''app1'' ''A1'' 1 =
     \<lparr>url = Some ''http://s/anyof.json'', allowed_app_specific_files = Some True,
      error = None, archive_map_version = None\<rparr>"
  by (simp add: get_json_schema_def both_lists_map_def both_lists_app_def empty_obj_def
        scan_app_def declares_def same_assessment_def)

lemma scan_apps_append:
  "scan_apps (xs @ ys) fn app_id aid rv obj =
     scan_apps ys fn app_id aid rv (scan_apps xs fn app_id aid rv obj)"
  by (induction xs arbitrary: obj) auto

lemma scan_apps_other:
  "\<forall>b \<in> set xs. appId b \<noteq> app_id \<Longrightarrow> scan_apps xs fn app_id aid rv obj = obj"
  by (induction xs arbitrary: obj) (auto simp: scan_app_def)

lemma scan_any_of_allowed:
  "allowed_app_specific_files (scan_any_of fs fn obj) = allowed_app_specific_files obj"
  by (induction fs) (auto split: option.splits)

lemma scan_app_not_declared:
  "\<not> declares a aid rv \<Longrightarrow>
   scan_app (a\<lparr>default_files := d, app_anyOf := q\<rparr>) fn app_id aid rv obj =
     scan_app a fn app_id aid rv obj"
  by (simp add: scan_app_def declares_def)

text \<open>
  Claim C9, as amended. The \<^verbatim>\<open>default.files\<close> and \<^verbatim>\<open>anyOf\<close> lists of an app that does not
  declare the assessment and revision are never consulted: replacing them changes no
  result. If moreover the assessment tier finds nothing and that app is the last one
  with the given identifier, the flag is reported as false, whatever the URL.
\<close>

theorem undeclared_app_not_consulted:
  assumes "apps am = pre @ a # post" and "\<not> declares a aid rv"
  shows "get_json_schema v (am\<lparr>apps := pre @ a\<lparr>default_files := d, app_anyOf := q\<rparr> # post\<rparr>)
             fn app_id aid rv
           = get_json_schema v am fn app_id aid rv
       \<and> (appId a = app_id \<and> (\<forall>b \<in> set post. appId b \<noteq> app_id) \<and>
          scan_assessments (assessments am) fn aid rv (empty_obj v) = None \<longrightarrow>
          allowed_app_specific_files (get_json_schema v am fn app_id aid rv) = Some False)"
proof (intro conjI impI)
  have "scan_apps (pre @ a\<lparr>default_files := d, app_anyOf := q\<rparr> # post) fn app_id aid rv obj =
        scan_apps (apps am) fn app_id aid rv obj" for obj
    using assms by (simp add: scan_apps_append scan_app_not_declared)
  then show "get_json_schema v (am\<lparr>apps := pre @ a\<lparr>default_files := d, app_anyOf := q\<rparr> # post\<rparr>)
             fn app_id aid rv
           = get_json_schema v am fn app_id aid rv"
    by (simp add: get_json_schema_def Let_def cong: option.case_cong)
next
  assume h: "appId a = app_id \<and> (\<forall>b \<in> set post. appId b \<noteq> app_id) \<and>
          scan_assessments (assessments am) fn aid rv (empty_obj v) = None"
  have "allowed_app_specific_files (scan_app a fn app_id aid rv obj) = Some False" for obj
    using assms(2) h by (simp add: scan_app_def)
  then show "allowed_app_specific_files (get_json_schema v am fn app_id aid rv) = Some False"
    using assms(1) h
    by (simp add: get_json_schema_def Let_def scan_apps_append scan_apps_other
          scan_any_of_allowed)
qed

text \<open>
  An app that declares nothing: no URL is found although both of its lists name the
  file, and the flag is false.
\<close>

theorem undeclared_app_not_consulted_witness:
  "apps undeclared_map = [] @ undeclared_app # []
   \<and> \<not> declares undeclared_app ''A1'' 1
   \<and> appId undeclared_app = ''app1''
   \<and> scan_assessments (assessments undeclared_map) ''x.json'' ''A1'' 1 (empty_obj None) = None
   \<and> get_json_schema None
        (undeclared_map\<lparr>apps := [] @ undeclared_app\<lparr>default_files := [], app_anyOf := []\<rparr> # []\<rparr>)
        ''x.json'' ''app1'' ''A1'' 1
      = get_json_schema None undeclared_map ''x.json'' ''app1'' ''A1'' 1
   \<and> get_json_schema None undeclared_map ''x.json'' ''app1'' ''A1'' 1 =
       \<lparr>url = None, allowed_app_specific_files = Some False, error = None,
        archive_map_version = None\<rparr>"
proof -
  have h1: "apps undeclared_map = [] @ undeclared_app # []"
    by (simp add: undeclared_map_def)
  have h2: "\<not> declares undeclared_app ''A1'' 1"
    by (simp add: declares_def undeclared_app_def)
  have h3: "appId undeclared_app = ''app1''"
    by (simp add: undeclared_app_def)
  have h4: "scan_assessments (assessments undeclared_map) ''x.json'' ''A1'' 1 (empty_obj None) = None"
    by (simp add: undeclared_map_def)
  have r: "get_json_schema None undeclared_map ''x.json'' ''app1'' ''A1'' 1 =
       \<lparr>url = None, allowed_app_specific_files = Some False, error = None,
        archive_map_version = None\<rparr>"
    by (simp add: get_json_schema_def undeclared_map_def undeclared_app_def empty_obj_def
          scan_app_def declares_def)
  from undeclared_app_not_consulted [OF h1 h2, of None "[]" "[]" "''x.json''" "''app1''"]
    h1 h2 h3 h4 r
  show ?thesis by simp
qed

text \<open>
  Two inputs on which the flag is not false for an app that matches and does not declare
  the pair: the assessment tier returns before the apps are read, and a later app with
  the same identifier declares the pair.
\<close>

theorem undeclared_app_flag_not_false:
  "undeclared_app \<in> set (apps undeclared_assessed_map)
   \<and> undeclared_app \<in> set (apps undeclared_twice_map)
   \<and> appId undeclared_app = ''app1''
   \<and> \<not> declares undeclared_app ''A1'' 1
   \<and> allowed_app_specific_files
        (get_json_schema None undeclared_assessed_map ''x.json'' ''app1'' ''A1'' 1) = None
   \<and> allowed_app_specific_files
        (get_json_schema None undeclared_twice_map ''x.json'' ''app1'' ''A1'' 1) = Some True"
  by (simp add: get_json_schema_def undeclared_assessed_map_def undeclared_twice_map_def
        undeclared_app_def example_app_def example_assessment_def example_file_def
        empty_obj_def scan_app_def declares_def same_assessment_def)

lemma scan_files_version:
  "scan_files fs fn (obj\<lparr>archive_map_version := w\<rparr>) =
     (scan_files fs fn obj)\<lparr>archive_map_version := w\<rparr>"
  by (induction fs) auto

lemma scan_assessment_files_version:
  "scan_assessment_files fs fn (obj\<lparr>archive_map_version := w\<rparr>) =
     map_option (\<lambda>r. r\<lparr>archive_map_version := w\<rparr>) (scan_assessment_files fs fn obj)"
  by (induction fs) auto

lemma scan_assessments_version:
  "scan_assessments as fn aid rv (obj\<lparr>archive_map_version := w\<rparr>) =
     map_option (\<lambda>r. r\<lparr>archive_map_version := w\<rparr>) (scan_assessments as fn aid rv obj)"
  by (induction as) (auto simp: scan_assessment_files_version split: option.splits)

lemma scan_app_version:
  "scan_app a fn app_id aid rv (obj\<lparr>archive_map_version := w\<rparr>) =
     (scan_app a fn app_id aid rv obj)\<lparr>archive_map_version := w\<rparr>"
proof -
  have sw: "obj\<lparr>archive_map_version := w\<rparr>\<lparr>allowed_app_specific_files := x\<rparr> =
            obj\<lparr>allowed_app_specific_files := x\<rparr>\<lparr>archive_map_version := w\<rparr>" for x
    by simp
  show ?thesis
    unfolding scan_app_def Let_def sw scan_files_version by simp
qed

lemma scan_apps_version:
  "scan_apps as fn app_id aid rv (obj\<lparr>archive_map_version := w\<rparr>) =
     (scan_apps as fn app_id aid rv obj)\<lparr>archive_map_version := w\<rparr>"
  by (induction as arbitrary: obj) (auto simp: scan_app_version)

lemma scan_any_of_version:
  "scan_any_of fs fn (obj\<lparr>archive_map_version := w\<rparr>) =
     (scan_any_of fs fn obj)\<lparr>archive_map_version := w\<rparr>"
  by (induction fs) (auto split: option.splits)

lemma get_json_schema_version:
  "get_json_schema v2 am fn app_id aid rv =
     (get_json_schema v1 am fn app_id aid rv)\<lparr>archive_map_version := v2\<rparr>"
proof -
  have eq: "empty_obj v2 = (empty_obj v1)\<lparr>archive_map_version := v2\<rparr>"
    by (simp add: empty_obj_def)
  show ?thesis
    unfolding get_json_schema_def Let_def eq scan_assessments_version scan_apps_version
    by (cases "scan_assessments (assessments am) fn aid rv (empty_obj v1)")
       (simp_all add: scan_any_of_version)
qed

text \<open>
  Claim C10. The resolution is a function of the archive map, the file name, the app, the
  assessment and the revision: its URL, flag and error do not depend on the one thing
  the code reads from elsewhere, the environment variable \<^verbatim>\<open>archive_map_version\<close>, which is
  copied to the field of that name. So two calls on the same five arguments give the same
  URL, flag and error, and in the same environment the same result.
\<close>

theorem get_json_schema_deterministic:
  "url (get_json_schema v1 am fn app_id aid rv) = url (get_json_schema v2 am fn app_id aid rv) \<and>
   allowed_app_specific_files (get_json_schema v1 am fn app_id aid rv) =
     allowed_app_specific_files (get_json_schema v2 am fn app_id aid rv) \<and>
   error (get_json_schema v1 am fn app_id aid rv) = error (get_json_schema v2 am fn app_id aid rv) \<and>
   archive_map_version (get_json_schema v1 am fn app_id aid rv) = v1"
  using get_json_schema_version [of v2 am fn app_id aid rv v1]
        get_json_schema_version [of v1 am fn app_id aid rv v1]
  by (cases "get_json_schema v1 am fn app_id aid rv"; simp)+


section \<open>Properties of the client info and of the validation of a record\<close>

lemma and_then_Inr: "and_then m f = Inr y \<longleftrightarrow> (\<exists>x. m = Inr x \<and> f x = Inr y)"
  by (cases m) (simp_all add: and_then_def)

lemma and_then_simps [simp]: "and_then (Inl e) f = Inl e" "and_then (Inr x) f = f x"
  by (simp_all add: and_then_def)

lemma split_not_Nil: "split sep s \<noteq> []"
  by (induction s) (auto split: list.splits)

lemma item1_split: "\<exists>v. item1 (x # split sep s) = Inr v"
  by (cases "split sep s") (simp_all add: split_not_Nil)

lemma re_search_Some: "re_search key s = Some g \<Longrightarrow> \<exists>w. g = key @ w"
  by (induction s) (auto split: if_splits)

lemma split_osName: "split CHR ''='' (''osName='' @ w) = ''osName'' # split CHR ''='' w"
  by (simp split: list.splits add: split_not_Nil)

lemma search_field_osName:
  "\<exists>r. search_field ''osName='' s = Inr r \<and> (r = None \<longleftrightarrow> re_search ''osName='' s = None)"
proof (cases "re_search ''osName='' s")
  case None
  then show ?thesis by (simp add: search_field_def)
next
  case (Some g)
  then obtain w where g: "g = ''osName='' @ w" using re_search_Some by blast
  obtain v where "item1 (''osName'' # split CHR ''='' w) = Inr v"
    using item1_split by blast
  then have "item1 (split CHR ''='' g) = Inr v"
    by (simp only: g split_osName)
  with Some show ?thesis
    by (simp add: search_field_def)
qed

text \<open>Evaluation of the example collaborators and records.\<close>

lemma decimal_42: "decimal ''42'' = Some 42"
  by (simp add: decimal_def)

lemma decimal_1: "decimal ''1'' = Some 1"
  by (simp add: decimal_def)

lemma example_ext_fields:
  "environ example_ext = map_of [(''archive_map_version'', ''v1''), (''NAMESPACE'', ''ns''),
                         (''invalid_sqs'', ''invalid-queue'')]"
  "json_loads example_ext = map_of [(''{}'', JObj []), (''[]'', JArr [])]"
  "py_int example_ext = decimal"
  "requests_get_json example_ext =
        (\<lambda>u. if u = ''http://s/ok.json'' then Inr (JObj [])
             else Inl (External ''ConnectionError''))"
  "zip_members example_ext =
        (\<lambda>b. case map_of example_archives b of
               None \<Rightarrow> Inl (External ''BadZipFile'') | Some z \<Rightarrow> Inr z)"
  "jsonschema_errors example_ext =
        (\<lambda>data schema base_uri.
           Inr (case data of JObj d \<Rightarrow> [] | _ \<Rightarrow> [''not of type object'']))"
  "get_sts_storage_token example_ext = (\<lambda>folder. Inr [(''aws_session_token'', folder)])"
  "get_object example_ext =
        (\<lambda>token bucket key. case map_of example_objects key of
               None \<Rightarrow> Inl (External ''NoSuchKey'') | Some obj \<Rightarrow> Inr obj)"
  "start_workflow_run example_ext = (\<lambda>name. Inr ''run'')"
  "put_workflow_run_properties example_ext = (\<lambda>name run_id msgs. Inr ())"
  by (simp_all add: example_ext_def)

lemma search_appVersion_garbage: "search_field ''appVersion='' ''garbage'' = Inr None"
  by (simp add: search_field_def)

lemma search_osName_garbage: "search_field ''osName='' ''garbage'' = Inr None"
  by (simp add: search_field_def)

lemma parse_garbage: "parse_client_info_metadata example_ext ''garbage'' = Inl TypeError"
  by (simp add: parse_client_info_metadata_def example_ext_fields search_appVersion_garbage
        search_osName_garbage int_of_def)

lemma example_metadata:
  "getitem (Metadata (example_object a c rid body)) ''assessmentid'' = Inr a"
  "getitem (Metadata (example_object a c rid body)) ''assessmentrevision'' = Inr ''1''"
  "getitem (Metadata (example_object a c rid body)) ''clientinfo'' = Inr c"
  "getitem (Metadata (example_object a c rid body)) ''recordid'' = Inr rid"
  "Body (example_object a c rid body) = body"
  by (simp_all add: example_object_def getitem_def)

lemma int_of_1: "int_of example_ext (Some ''1'') = Inr 1"
  by (simp add: int_of_def example_ext_fields decimal_1)

lemma read_garbage:
  "read_metadata example_ext (example_object ''A1'' ''garbage'' ''r5'' ''valid'') = Inl TypeError"
  by (simp add: read_metadata_def example_metadata int_of_1 parse_garbage)

lemma search_appVersion_example:
  "search_field ''appVersion='' ''appVersion=42,osName=iOS'' = Inr (Some ''42'')"
  by (simp add: search_field_def)

lemma search_osName_example:
  "search_field ''osName='' ''appVersion=42,osName=iOS'' = Inr (Some ''iOS'')"
  by (simp add: search_field_def)

lemma parse_example:
  "parse_client_info_metadata example_ext ''appVersion=42,osName=iOS'' =
     Inr (JObj [(''appVersion'', JInt 42), (''osName'', JStr ''iOS''),
                (''appName'', JStr ''mobile-toolbox'')])"
  by (simp add: parse_client_info_metadata_def example_ext_fields search_appVersion_example
        search_osName_example int_of_def decimal_42)

lemma appName_fallback:
  "json_getitem (JObj [(''appVersion'', v), (''osName'', os), (''appName'', n)]) ''appName'' = Inr n"
  by (simp add: getitem_def)

lemma example_read_metadata:
  "read_metadata example_ext (example_object a ''appVersion=42,osName=iOS'' rid body) =
     Inr (example_result a rid)"
  by (simp add: read_metadata_def example_metadata int_of_1 parse_example appName_fallback
        example_result_def del: json_getitem.simps)

lemma example_get_object:
  "get_object example_ext token bucket ''valid.zip'' =
     Inr (example_object ''A1'' ''appVersion=42,osName=iOS'' ''r1'' ''valid'')"
  "get_object example_ext token bucket ''invalid.zip'' =
     Inr (example_object ''A1'' ''appVersion=42'' ''r2'' ''invalid'')"
  "get_object example_ext token bucket ''unfetchable.zip'' =
     Inr (example_object ''A2'' ''appVersion=42,osName=iOS'' ''r3'' ''unfetchable'')"
  "get_object example_ext token bucket ''taskdata.zip'' =
     Inr (example_object ''A2'' ''appVersion=42,osName=iOS'' ''r4'' ''taskdata'')"
  "get_object example_ext token bucket ''late.zip'' =
     Inr (example_object ''A2'' ''appVersion=42,osName=iOS'' ''r6'' ''late'')"
  by (simp_all add: example_ext_fields example_objects_def)

lemma example_zip_members:
  "zip_members example_ext ''valid'' = Inr [(''taskData.json'', ''{}''), (''unknown.json'', ''{}'')]"
  "zip_members example_ext ''invalid'' = Inr [(''x.json'', ''[]'')]"
  "zip_members example_ext ''unfetchable'' = Inr [(''x.json'', ''{}'')]"
  "zip_members example_ext ''taskdata'' = Inr [(''taskData.json'', ''{}'')]"
  "zip_members example_ext ''late'' = Inr [(''unknown.json'', ''{}''), (''x.json'', ''{}'')]"
  by (simp_all add: example_ext_fields example_archives_def)

lemma example_basename:
  "basename ''taskData.json'' = ''taskData.json''"
  "basename ''unknown.json'' = ''unknown.json''"
  "basename ''x.json'' = ''x.json''"
  by (simp_all add: basename_def)

lemma example_resolution:
  "resolution example_ext example_map (example_result ''A1'' rid) ''taskData.json'' =
     \<lparr>url = Some ''http://s/ok.json'', allowed_app_specific_files = None, error = None,
      archive_map_version = Some ''v1''\<rparr>"
  "resolution example_ext example_map (example_result ''A1'' rid) ''x.json'' =
     \<lparr>url = Some ''http://s/ok.json'', allowed_app_specific_files = None, error = None,
      archive_map_version = Some ''v1''\<rparr>"
  "resolution example_ext example_map (example_result ''A1'' rid) ''unknown.json'' =
     \<lparr>url = None, allowed_app_specific_files = None, error = None,
      archive_map_version = Some ''v1''\<rparr>"
  "resolution example_ext example_map (example_result ''A2'' rid) ''taskData.json'' =
     \<lparr>url = Some ''http://s/gone.json'', allowed_app_specific_files = None, error = None,
      archive_map_version = Some ''v1''\<rparr>"
  "resolution example_ext example_map (example_result ''A2'' rid) ''x.json'' =
     \<lparr>url = Some ''http://s/gone.json'', allowed_app_specific_files = None, error = None,
      archive_map_version = Some ''v1''\<rparr>"
  "resolution example_ext example_map (example_result ''A2'' rid) ''unknown.json'' =
     \<lparr>url = None, allowed_app_specific_files = None, error = None,
      archive_map_version = Some ''v1''\<rparr>"
  by (simp_all add: resolution_def example_basename example_ext_fields get_json_schema_def
        example_map_def example_result_def same_assessment_def empty_obj_def)

lemma validate_file_resolution:
  "validate_file ext am z vr json_path =
     (case url (resolution ext am vr json_path) of
        None \<Rightarrow> Inr vr
      | Some u \<Rightarrow>
          and_then (requests_get_json ext u) (\<lambda>json_schema.
          and_then (z_open z json_path) (\<lambda>p.
          and_then (json_load ext p) (\<lambda>j.
            if json_path = ''taskData.json'' then Inr vr
            else
              and_then (validate_against_schema ext j json_schema (dirname u)) (\<lambda>all_errors.
                if length all_errors > 0
                then Inr (vr\<lparr>errors :=
                       AList.update (basename json_path)
                         ((resolution ext am vr json_path)\<lparr>error := Some all_errors\<rparr>)
                         (errors vr)\<rparr>)
                else Inr vr)))))"
  unfolding validate_file_def resolution_def Let_def by (rule refl)

lemma example_fetch:
  "requests_get_json example_ext ''http://s/ok.json'' = Inr (JObj [])"
  "requests_get_json example_ext ''http://s/gone.json'' = Inl (External ''ConnectionError'')"
  by (simp_all add: example_ext_fields)

lemma example_json_load:
  "json_load example_ext ''{}'' = Inr (JObj [])"
  "json_load example_ext ''[]'' = Inr (JArr [])"
  by (simp_all add: json_load_def example_ext_fields)

lemma search_appVersion_short:
  "search_field ''appVersion='' ''appVersion=42'' = Inr (Some ''42'')"
  by (simp add: search_field_def)

lemma search_osName_short: "search_field ''osName='' ''appVersion=42'' = Inr None"
  by (simp add: search_field_def)

lemma parse_short:
  "parse_client_info_metadata example_ext ''appVersion=42'' =
     Inr (JObj [(''appVersion'', JInt 42), (''osName'', JNull),
                (''appName'', JStr ''mobile-toolbox'')])"
  by (simp add: parse_client_info_metadata_def example_ext_fields search_appVersion_short
        search_osName_short int_of_def decimal_42)

lemma example_read_metadata_short:
  "read_metadata example_ext (example_object a ''appVersion=42'' rid body) =
     Inr (example_result a rid)"
  by (simp add: read_metadata_def example_metadata int_of_1 parse_short appName_fallback
        example_result_def del: json_getitem.simps)

lemma example_z_open:
  "z_open [(''taskData.json'', ''{}''), (''unknown.json'', ''{}'')] ''taskData.json'' = Inr ''{}''"
  "z_open [(''taskData.json'', ''{}'')] ''taskData.json'' = Inr ''{}''"
  "z_open [(''x.json'', c)] ''x.json'' = Inr c"
  by (simp_all add: z_open_def getitem_def)

lemma example_token:
  "getitem example_tokens (raw_folder_id (example_parameters key)) =
     Inr [(''aws_session_token'', ''syn1'')]"
  "source_bucket (example_parameters key) = ''bucket''"
  "source_key (example_parameters key) = key"
  by (simp_all add: example_tokens_def example_parameters_def getitem_def)

lemma validate_file_valid:
  "validate_file example_ext example_map [(''taskData.json'', ''{}''), (''unknown.json'', ''{}'')]
     (example_result ''A1'' rid) ''taskData.json'' = Inr (example_result ''A1'' rid)"
  "validate_file example_ext example_map [(''taskData.json'', ''{}''), (''unknown.json'', ''{}'')]
     (example_result ''A1'' rid) ''unknown.json'' = Inr (example_result ''A1'' rid)"
  by (simp_all add: validate_file_resolution example_resolution example_fetch example_z_open
        example_json_load)

lemma validate_data_valid:
  "validate_data example_ext (example_parameters ''valid.zip'') example_map example_tokens =
     Inr (example_result ''A1'' ''r1'')"
  by (simp add: validate_data_def example_token example_get_object example_read_metadata
        example_metadata example_zip_members validate_file_valid)

lemma validate_file_invalid:
  "validate_file example_ext example_map [(''x.json'', ''[]'')]
     (example_result ''A1'' ''r2'') ''x.json'' = Inr invalid_result"
  by (simp add: validate_file_resolution example_resolution example_fetch example_z_open
        example_json_load validate_against_schema_def example_ext_fields example_basename
        invalid_result_def)
     (simp add: example_result_def)

lemma validate_data_invalid:
  "validate_data example_ext (example_parameters ''invalid.zip'') example_map example_tokens =
     Inr invalid_result"
  by (simp add: validate_data_def example_token example_get_object example_read_metadata_short
        example_metadata example_zip_members validate_file_invalid)

lemma validate_file_unfetchable:
  "validate_file example_ext example_map z (example_result ''A2'' rid) ''x.json'' =
     Inl (External ''ConnectionError'')"
  "validate_file example_ext example_map z (example_result ''A2'' rid) ''taskData.json'' =
     Inl (External ''ConnectionError'')"
  by (simp_all add: validate_file_resolution example_resolution example_fetch)

lemma validate_data_unfetchable:
  "validate_data example_ext (example_parameters ''unfetchable.zip'') example_map example_tokens =
     Inl (External ''ConnectionError'')"
  by (simp add: validate_data_def example_token example_get_object example_read_metadata
        example_metadata example_zip_members validate_file_unfetchable)

lemma validate_data_taskdata:
  "validate_data example_ext (example_parameters ''taskdata.zip'') example_map example_tokens =
     Inl (External ''ConnectionError'')"
  by (simp add: validate_data_def example_token example_get_object example_read_metadata
        example_metadata example_zip_members validate_file_unfetchable)

text \<open>A client info that is valid JSON is returned as decoded (line 46).\<close>

lemma client_info_json_returned:
  "json_loads ext c = Some client_info \<Longrightarrow> parse_client_info_metadata ext c = Inr client_info"
  by (simp add: parse_client_info_metadata_def)

text \<open>
  The fallback of lines 48-65 where it works. A client info that is not JSON and in which
  the search for \<^verbatim>\<open>appVersion=\<close> finds a value that \<^verbatim>\<open>int\<close> accepts is parsed without an
  exception: the app version is that integer, the OS name is the value found or the null
  value when the search finds nothing, and the app name is always \<^verbatim>\<open>mobile-toolbox\<close>. A
  record with such a header, its three other header keys present and its revision an
  integer, gets a validation result whose \<^verbatim>\<open>appId\<close> is \<^verbatim>\<open>mobile-toolbox\<close>.
\<close>

lemma client_info_key_value_parsed:
  assumes "json_loads ext c = None"
    and "search_field ''appVersion='' c = Inr (Some v)"
    and "py_int ext v = Some n"
  shows "parse_client_info_metadata ext c =
           Inr (JObj [(''appVersion'', JInt n),
                      (''osName'', case search_field ''osName='' c of
                                     Inr (Some x) \<Rightarrow> JStr x | _ \<Rightarrow> JNull),
                      (''appName'', JStr ''mobile-toolbox'')])
       \<and> (re_search ''osName='' c = None \<longrightarrow> search_field ''osName='' c = Inr None)
       \<and> (map_of (Metadata s3_obj) ''assessmentid'' = Some a \<and>
          map_of (Metadata s3_obj) ''assessmentrevision'' = Some r \<and>
          py_int ext r = Some k \<and>
          map_of (Metadata s3_obj) ''clientinfo'' = Some c \<and>
          map_of (Metadata s3_obj) ''recordid'' = Some rid \<longrightarrow>
          read_metadata ext s3_obj =
            Inr \<lparr>assessmendId = a, vr_assessmentRevision = k,
                 vr_appId = JStr ''mobile-toolbox'', recordId = rid, errors = []\<rparr>)"
proof -
  obtain os_name where os: "search_field ''osName='' c = Inr os_name"
    "os_name = None \<longleftrightarrow> re_search ''osName='' c = None"
    using search_field_osName by blast
  have p: "parse_client_info_metadata ext c =
           Inr (JObj [(''appVersion'', JInt n),
                      (''osName'', case search_field ''osName='' c of
                                     Inr (Some x) \<Rightarrow> JStr x | _ \<Rightarrow> JNull),
                      (''appName'', JStr ''mobile-toolbox'')])"
    using assms os(1)
    by (cases os_name) (simp_all add: parse_client_info_metadata_def int_of_def)
  have q: "re_search ''osName='' c = None \<longrightarrow> search_field ''osName='' c = Inr None"
    using os by simp
  have rm: "map_of (Metadata s3_obj) ''assessmentid'' = Some a \<and>
          map_of (Metadata s3_obj) ''assessmentrevision'' = Some r \<and>
          py_int ext r = Some k \<and>
          map_of (Metadata s3_obj) ''clientinfo'' = Some c \<and>
          map_of (Metadata s3_obj) ''recordid'' = Some rid \<longrightarrow>
          read_metadata ext s3_obj =
            Inr \<lparr>assessmendId = a, vr_assessmentRevision = k,
                 vr_appId = JStr ''mobile-toolbox'', recordId = rid, errors = []\<rparr>"
  proof
    assume "map_of (Metadata s3_obj) ''assessmentid'' = Some a \<and>
          map_of (Metadata s3_obj) ''assessmentrevision'' = Some r \<and>
          py_int ext r = Some k \<and>
          map_of (Metadata s3_obj) ''clientinfo'' = Some c \<and>
          map_of (Metadata s3_obj) ''recordid'' = Some rid"
    then show "read_metadata ext s3_obj =
            Inr \<lparr>assessmendId = a, vr_assessmentRevision = k,
                 vr_appId = JStr ''mobile-toolbox'', recordId = rid, errors = []\<rparr>"
      using p by (simp add: read_metadata_def getitem_def int_of_def)
  qed
  from p q rm show ?thesis by (intro conjI)
qed

text \<open>A header \<^verbatim>\<open>appVersion=42\<close>: no OS name, and the app name of the fallback.\<close>

lemma client_info_key_value_parsed_example:
  "json_loads example_ext ''appVersion=42'' = None
   \<and> search_field ''appVersion='' ''appVersion=42'' = Inr (Some ''42'')
   \<and> py_int example_ext ''42'' = Some 42
   \<and> re_search ''osName='' ''appVersion=42'' = None
   \<and> py_int example_ext ''1'' = Some 1
   \<and> parse_client_info_metadata example_ext ''appVersion=42'' =
       Inr (JObj [(''appVersion'', JInt 42), (''osName'', JNull),
                  (''appName'', JStr ''mobile-toolbox'')])
   \<and> read_metadata example_ext (example_object ''A1'' ''appVersion=42'' ''r2'' ''invalid'') =
       Inr (example_result ''A1'' ''r2'')"
proof -
  have h1: "json_loads example_ext ''appVersion=42'' = None"
    by (simp add: example_ext_fields)
  have h2: "search_field ''appVersion='' ''appVersion=42'' = Inr (Some ''42'')"
    by (rule search_appVersion_short)
  have h3: "py_int example_ext ''42'' = Some 42"
    by (simp add: example_ext_fields decimal_42)
  have h4: "py_int example_ext ''1'' = Some 1"
    by (simp add: example_ext_fields decimal_1)
  have n: "re_search ''osName='' ''appVersion=42'' = None"
    by simp
  have m: "map_of (Metadata (example_object ''A1'' ''appVersion=42'' ''r2'' ''invalid''))
             ''assessmentid'' = Some ''A1''"
    "map_of (Metadata (example_object ''A1'' ''appVersion=42'' ''r2'' ''invalid''))
             ''assessmentrevision'' = Some ''1''"
    "map_of (Metadata (example_object ''A1'' ''appVersion=42'' ''r2'' ''invalid''))
             ''clientinfo'' = Some ''appVersion=42''"
    "map_of (Metadata (example_object ''A1'' ''appVersion=42'' ''r2'' ''invalid''))
             ''recordid'' = Some ''r2''"
    by (simp_all add: example_object_def)
  note t = client_info_key_value_parsed [OF h1 h2 h3,
      of "example_object ''A1'' ''appVersion=42'' ''r2'' ''invalid''" "''A1''" "''1''" 1 "''r2''"]
  from t n have s: "search_field ''osName='' ''appVersion=42'' = Inr None"
    by blast
  from t have p: "parse_client_info_metadata example_ext ''appVersion=42'' =
       Inr (JObj [(''appVersion'', JInt 42), (''osName'', JNull),
                  (''appName'', JStr ''mobile-toolbox'')])"
    unfolding s by simp
  from t h4 m
  have r: "read_metadata example_ext (example_object ''A1'' ''appVersion=42'' ''r2'' ''invalid'') =
       Inr \<lparr>assessmendId = ''A1'', vr_assessmentRevision = 1,
                 vr_appId = JStr ''mobile-toolbox'', recordId = ''r2'', errors = []\<rparr>"
    by blast
  then have r': "read_metadata example_ext (example_object ''A1'' ''appVersion=42'' ''r2'' ''invalid'') =
       Inr (example_result ''A1'' ''r2'')"
    by (simp add: example_result_def)
  from h1 h2 h3 h4 n p r' show ?thesis by (intro conjI)
qed

text \<open>
  Claim C3. The parsing of the header metadata does raise. For a client info that is
  neither JSON nor has an \<^verbatim>\<open>appVersion=\<close> field, lines 52-54 set the version to the
  sentinel \<^verbatim>\<open>None\<close> and log the string, as lines 57-59 do for the OS name; but line 63
  then calls \<^verbatim>\<open>int\<close> on the sentinel, which is a \<^verbatim>\<open>TypeError\<close>. The exception leaves
  \<^verbatim>\<open>parse_client_info_metadata\<close> and \<^verbatim>\<open>validate_data\<close>, and the record gets no validation
  result, with a null \<^verbatim>\<open>appId\<close> or any other.
\<close>

theorem client_info_unparseable_raises:
  "json_loads example_ext ''garbage'' = None
   \<and> parse_client_info_metadata example_ext ''garbage'' = Inl TypeError
   \<and> read_metadata example_ext (example_object ''A1'' ''garbage'' ''r5'' ''valid'') = Inl TypeError"
  by (simp add: parse_garbage read_garbage example_ext_fields)

lemma read_metadata_errors: "read_metadata ext s3_obj = Inr vr \<Longrightarrow> errors vr = []"
  by (auto simp: read_metadata_def and_then_Inr)

lemma validate_file_skipped:
  "skipped ext am z vr p \<Longrightarrow> validate_file ext am z vr p = Inr vr"
proof (cases "url (resolution ext am vr p)")
  case None
  then show ?thesis by (simp add: resolution_def validate_file_def Let_def)
next
  case (Some u)
  assume "skipped ext am z vr p"
  with Some have t: "p = ''taskData.json''"
    and f: "returns (requests_get_json ext u)"
    and d: "returns (and_then (z_open z p) (json_load ext))"
    by (auto simp: skipped_def)
  from f obtain s where s: "requests_get_json ext u = Inr s"
    by (cases "requests_get_json ext u") (simp_all add: returns_def)
  from d obtain c where c: "z_open z p = Inr c"
    by (cases "z_open z p") (simp_all add: returns_def)
  with d obtain j where j: "json_load ext c = Inr j"
    by (cases "json_load ext c") (simp_all add: returns_def)
  from Some s c j t show ?thesis
    by (simp add: resolution_def validate_file_def Let_def)
qed

lemma validate_files_skipped:
  "\<forall>p \<in> set ps. skipped ext am z vr p \<Longrightarrow> validate_files ext am z vr ps = Inr vr"
  by (induction ps) (simp_all add: validate_file_skipped)

lemma validate_file_taskData:
  "validate_file ext am z vr ''taskData.json'' = Inr vr
     \<or> (\<exists>e. validate_file ext am z vr ''taskData.json'' = Inl e)"
proof (cases "validate_file ext am z vr ''taskData.json''")
  case (Inl e)
  then show ?thesis by simp
next
  case (Inr r)
  then have "r = vr"
    by (auto simp: validate_file_def Let_def and_then_Inr split: option.splits)
  with Inr show ?thesis by simp
qed

text \<open>
  Claim C8, as amended. When the object and its header metadata are read and the archive
  is opened without an exception, and every member either has no resolvable schema or is
  the task-data entry with a schema document that can be fetched and a content that
  decodes, validation returns the result with no errors. The task-data entry never adds
  an entry to the errors: the loop body returns the result as it was, or raises.
\<close>

theorem skipped_members_valid:
  assumes "map_of tokens (raw_folder_id mp) = Some token"
    and "get_object ext token (source_bucket mp) (source_key mp) = Inr s3_obj"
    and "read_metadata ext s3_obj = Inr vr0"
    and "zip_members ext (Body s3_obj) = Inr z"
    and "\<forall>p \<in> set (map fst z). skipped ext am z vr0 p"
  shows "validate_data ext mp am tokens = Inr vr0 \<and> errors vr0 = []
     \<and> (\<forall>vr. validate_file ext am z vr ''taskData.json'' = Inr vr
            \<or> (\<exists>e. validate_file ext am z vr ''taskData.json'' = Inl e))"
  using assms validate_files_skipped [OF assms(5)] read_metadata_errors [OF assms(3)]
    validate_file_taskData [of ext am z]
  by (simp add: validate_data_def getitem_def)

text \<open>
  An archive of the task-data entry, whose schema is fetched, and a file that the archive
  map does not know.
\<close>

theorem skipped_members_valid_witness:
  "map_of example_tokens (raw_folder_id (example_parameters ''valid.zip''))
     = Some [(''aws_session_token'', ''syn1'')]
   \<and> get_object example_ext [(''aws_session_token'', ''syn1'')]
        (source_bucket (example_parameters ''valid.zip''))
        (source_key (example_parameters ''valid.zip''))
      = Inr (example_object ''A1'' ''appVersion=42,osName=iOS'' ''r1'' ''valid'')
   \<and> read_metadata example_ext (example_object ''A1'' ''appVersion=42,osName=iOS'' ''r1'' ''valid'')
      = Inr (example_result ''A1'' ''r1'')
   \<and> zip_members example_ext (Body (example_object ''A1'' ''appVersion=42,osName=iOS'' ''r1'' ''valid''))
      = Inr [(''taskData.json'', ''{}''), (''unknown.json'', ''{}'')]
   \<and> skipped example_ext example_map [(''taskData.json'', ''{}''), (''unknown.json'', ''{}'')]
        (example_result ''A1'' ''r1'') ''taskData.json''
   \<and> url (resolution example_ext example_map (example_result ''A1'' ''r1'') ''taskData.json'')
      = Some ''http://s/ok.json''
   \<and> skipped example_ext example_map [(''taskData.json'', ''{}''), (''unknown.json'', ''{}'')]
        (example_result ''A1'' ''r1'') ''unknown.json''
   \<and> validate_data example_ext (example_parameters ''valid.zip'') example_map example_tokens
      = Inr (example_result ''A1'' ''r1'')
   \<and> errors (example_result ''A1'' ''r1'') = []"
proof -
  let ?z = "[(''taskData.json'', ''{}''), (''unknown.json'', ''{}'')]"
  let ?obj = "example_object ''A1'' ''appVersion=42,osName=iOS'' ''r1'' ''valid''"
  have h1: "map_of example_tokens (raw_folder_id (example_parameters ''valid.zip''))
     = Some [(''aws_session_token'', ''syn1'')]"
    by (simp add: example_tokens_def example_parameters_def)
  have h2: "get_object example_ext [(''aws_session_token'', ''syn1'')]
        (source_bucket (example_parameters ''valid.zip''))
        (source_key (example_parameters ''valid.zip'')) = Inr ?obj"
    by (simp add: example_token example_get_object)
  have h3: "read_metadata example_ext ?obj = Inr (example_result ''A1'' ''r1'')"
    by (rule example_read_metadata)
  have h4: "zip_members example_ext (Body ?obj) = Inr ?z"
    by (simp add: example_metadata example_zip_members)
  have u: "url (resolution example_ext example_map (example_result ''A1'' ''r1'') ''taskData.json'')
      = Some ''http://s/ok.json''"
    by (simp add: example_resolution)
  have s1: "skipped example_ext example_map ?z (example_result ''A1'' ''r1'') ''taskData.json''"
    by (simp add: skipped_def example_resolution returns_def example_fetch example_z_open
          example_json_load)
  have s2: "skipped example_ext example_map ?z (example_result ''A1'' ''r1'') ''unknown.json''"
    by (simp add: skipped_def example_resolution)
  have h5: "\<forall>p \<in> set (map fst ?z). skipped example_ext example_map ?z (example_result ''A1'' ''r1'') p"
    using s1 s2 by simp
  from skipped_members_valid [OF h1 h2 h3 h4 h5] h1 h2 h3 h4 s1 s2 u
  show ?thesis by simp
qed

text \<open>
  An archive with the task-data entry alone, whose schema document cannot be fetched:
  the fetch of line 135 comes before the test of line 140, and validation raises.
\<close>

theorem task_data_fetch_failure_raises:
  "zip_members example_ext (Body (example_object ''A2'' ''appVersion=42,osName=iOS'' ''r4'' ''taskdata''))
     = Inr [(''taskData.json'', ''{}'')]
   \<and> get_object example_ext [(''aws_session_token'', ''syn1'')] ''bucket'' ''taskdata.zip''
     = Inr (example_object ''A2'' ''appVersion=42,osName=iOS'' ''r4'' ''taskdata'')
   \<and> validate_data example_ext (example_parameters ''taskdata.zip'') example_map example_tokens
     = Inl (External ''ConnectionError'')"
  by (simp add: example_metadata example_zip_members example_get_object validate_data_taskdata)


section \<open>Properties of the handler\<close>

lemma update_new: "map_of al k = None \<Longrightarrow> AList.update k v al = al @ [(k, v)]"
  by (induction al) (auto split: if_splits)

lemma batch_add_study:
  "batch (add_study app mp msgs study) a s =
     batch msgs a s @ (if a = app \<and> s = study then [mp] else [])"
  by (auto simp: batch_def add_study_def update_conv' split: option.splits)

lemma batch_add_studies:
  "batch (foldl (add_study app mp) msgs studies) a s =
     batch msgs a s @ (if a = app then replicate (count_list studies s) mp else [])"
proof (induction studies arbitrary: msgs)
  case Nil
  show ?case by simp
next
  case (Cons x xs)
  show ?case
    by (simp add: Cons.IH batch_add_study replicate_append_same)
qed

lemma batch_add_record:
  "batch (add_record msgs r) a s =
     batch msgs a s @ (if message_appId r = a
        then replicate (count_list (studyRecords r) s) (message_parameters_of r) else [])"
  by (simp add: add_record_def batch_add_studies)

lemma count_list_distinct:
  "distinct xs \<Longrightarrow> count_list xs x = (if x \<in> set xs then 1 else 0)"
  by (induction xs) auto

lemma batch_add_record_distinct:
  "distinct (studyRecords r) \<Longrightarrow>
   batch (add_record msgs r) a s =
     batch msgs a s @ (if message_appId r = a \<and> s \<in> set (studyRecords r)
        then [message_parameters_of r] else [])"
  by (simp add: batch_add_record count_list_distinct)

lemma batch_aggregate:
  "\<forall>r \<in> set records. distinct (studyRecords r) \<Longrightarrow>
   batch (foldl add_record msgs records) a s =
     batch msgs a s @ map message_parameters_of
        (filter (\<lambda>r. message_appId r = a \<and> s \<in> set (studyRecords r)) records)"
  by (induction records arbitrary: msgs) (simp_all add: batch_add_record_distinct)

lemma handle_record_messages:
  "handle_record ext am st r = Inr st' \<Longrightarrow> messages st' = add_record (messages st) r"
  by (auto simp: handle_record_def Let_def and_then_Inr)

lemma handle_records_messages:
  "handle_records ext am st records = Inr st' \<Longrightarrow>
   messages st' = foldl add_record (messages st) records"
proof (induction records arbitrary: st)
  case Nil
  then show ?case by simp
next
  case (Cons r rs)
  then obtain st1 where s1: "handle_record ext am st r = Inr st1"
    and s2: "handle_records ext am st1 rs = Inr st'"
    by (auto simp: and_then_Inr)
  from Cons.IH [OF s2] handle_record_messages [OF s1] show ?case by simp
qed

lemma lambda_handler_Inr:
  "lambda_handler ext am records = Inr (st, started) \<Longrightarrow>
   handle_records ext am initial_state records = Inr st"
  by (auto simp: lambda_handler_def and_then_Inr)

lemma lambda_handler_messages:
  "lambda_handler ext am records = Inr (st, started) \<Longrightarrow>
   messages st = foldl add_record [] records"
  using handle_records_messages [OF lambda_handler_Inr] by (simp add: initial_state_def)

text \<open>Evaluation of the handler on the example records.\<close>

lemma example_record_fields:
  "message_parameters_of (example_record key studies) = example_parameters key"
  "message_appId (example_record key studies) = ''app1''"
  "studyRecords (example_record key studies) = studies"
  "rawFolderId (example_record key studies) = ''syn1''"
  "s3Bucket (example_record key studies) = ''bucket''"
  "s3Key (example_record key studies) = key"
  "raw_folder_id (example_parameters key) = ''syn1''"
  by (simp_all add: example_record_def example_parameters_def message_parameters_of_def)

lemma example_update_sts_tokens:
  "update_sts_tokens example_ext ''syn1'' [] = Inr example_tokens"
  "update_sts_tokens example_ext ''syn1'' example_tokens = Inr example_tokens"
  by (simp_all add: update_sts_tokens_def example_ext_fields example_tokens_def)

lemma example_aggregate:
  "foldl add_record [] example_records = example_batches"
  by (simp add: example_records_def example_batches_def add_record_def example_record_fields
        add_study_def)

lemma example_handle_valid:
  "handle_record example_ext example_map initial_state (example_record ''valid.zip'' [''s1'']) =
     Inr \<lparr>messages = add_record [] (example_record ''valid.zip'' [''s1'']),
          sts_tokens = example_tokens\<rparr>"
  by (simp add: handle_record_def example_record_fields initial_state_def
        example_update_sts_tokens validate_data_valid)

lemma example_handle_invalid:
  "handle_record example_ext example_map
     \<lparr>messages = msgs, sts_tokens = example_tokens\<rparr>
     (example_record ''invalid.zip'' [''s1'', ''s2'']) =
     Inr \<lparr>messages = add_record msgs (example_record ''invalid.zip'' [''s1'', ''s2'']),
          sts_tokens = example_tokens\<rparr>"
  by (simp add: handle_record_def example_record_fields example_update_sts_tokens
        validate_data_invalid)

lemma example_handle_records:
  "handle_records example_ext example_map initial_state example_records = Inr example_final_state"
proof -
  have "handle_records example_ext example_map initial_state example_records =
      Inr \<lparr>messages = foldl add_record [] example_records,
           sts_tokens = example_tokens\<rparr>"
    by (simp add: example_records_def example_handle_valid example_handle_invalid)
  then show ?thesis
    by (simp add: example_aggregate example_final_state_def)
qed

lemma example_workflows:
  "workflows (environ example_ext ''NAMESPACE'') example_batches = example_started"
  by (simp add: workflows_def example_batches_def example_started_def workflow_name_def
        example_ext_fields)

lemma example_start_workflows:
  "start_workflows example_ext example_started = Inr example_started"
  by (simp add: example_started_def example_ext_fields)

lemma example_lambda_handler:
  "lambda_handler example_ext example_map example_records =
     Inr (example_final_state, example_started)"
proof -
  have "messages example_final_state = example_batches"
    by (simp add: example_final_state_def)
  then show ?thesis
    by (simp add: lambda_handler_def example_handle_records example_workflows
          example_start_workflows)
qed

lemma example_distinct: "\<forall>r \<in> set example_records. distinct (studyRecords r)"
  by (simp add: example_records_def example_record_fields)

text \<open>
  Claim C6. When the handler returns, the batch of an app and a study is the sequence of
  the message parameters of the records of that app whose study set has that study, in
  the order of arrival. The batches are a function of the records alone: a second run on
  the same records, with any collaborators and any archive map, returns the same batches.
\<close>

theorem aggregation_preserves_arrival_order:
  assumes "lambda_handler ext am records = Inr (st, started)"
    and "\<forall>r \<in> set records. distinct (studyRecords r)"
  shows "batch (messages st) app study =
           map message_parameters_of
             (filter (\<lambda>r. message_appId r = app \<and> study \<in> set (studyRecords r)) records)
       \<and> (lambda_handler ext' am' records = Inr (st', started') \<longrightarrow> messages st' = messages st)"
proof -
  have m: "messages st = foldl add_record [] records"
    using assms(1) by (rule lambda_handler_messages)
  have "batch [] app study = []" by (simp add: batch_def)
  with batch_aggregate [OF assms(2), of "[]" app study] m
  have "batch (messages st) app study =
           map message_parameters_of
             (filter (\<lambda>r. message_appId r = app \<and> study \<in> set (studyRecords r)) records)"
    by simp
  moreover have "lambda_handler ext' am' records = Inr (st', started') \<longrightarrow>
      messages st' = messages st"
    using lambda_handler_messages [of ext' am' records st' started'] m by simp
  ultimately show ?thesis by simp
qed

text \<open>The batches of the two example records, in the order of arrival.\<close>

theorem aggregation_preserves_arrival_order_witness:
  "lambda_handler example_ext example_map example_records =
     Inr (example_final_state, example_started)
   \<and> list_all (\<lambda>r. distinct (studyRecords r)) example_records
   \<and> batch (messages example_final_state) ''app1'' ''s1'' =
       [example_parameters ''valid.zip'', example_parameters ''invalid.zip'']
   \<and> batch (messages example_final_state) ''app1'' ''s2'' = [example_parameters ''invalid.zip'']"
proof -
  note t = aggregation_preserves_arrival_order [OF example_lambda_handler example_distinct]
  from t [of "''app1''" "''s1''"]
  have b1: "batch (messages example_final_state) ''app1'' ''s1'' =
       [example_parameters ''valid.zip'', example_parameters ''invalid.zip'']"
    by (simp add: example_records_def example_record_fields)
  from t [of "''app1''" "''s2''"]
  have b2: "batch (messages example_final_state) ''app1'' ''s2'' =
       [example_parameters ''invalid.zip'']"
    by (simp add: example_records_def example_record_fields)
  have d: "list_all (\<lambda>r. distinct (studyRecords r)) example_records"
    using example_distinct by (simp add: list_all_iff)
  from example_lambda_handler d b1 b2 show ?thesis by (intro conjI)
qed

lemma example_first_batches:
  "add_record [] (example_record ''valid.zip'' [''s1'']) =
     [(''app1'', [(''s1'', [example_parameters ''valid.zip''])])]"
  by (simp add: add_record_def example_record_fields add_study_def)

text \<open>
  Claim C7. A record is grouped under every study of its study set and under no other:
  adding a record appends its parameters to the batch of its app and of each study among
  its keys, which makes a one-element sequence where there was none, and leaves every
  other batch as it was. One step, for one study: a new app is added with that study
  alone and the one-element sequence; a new study of a known app is added with the
  one-element sequence; otherwise the sequence of the study gets the parameters at its
  end. When the handler returns from two records of one app with study sets \<^verbatim>\<open>[s1]\<close> and
  \<^verbatim>\<open>[s1, s2]\<close>, in this order, its batches are exactly those of the specification's
  example.
\<close>

theorem record_grouped_under_every_study:
  "(distinct (studyRecords r) \<longrightarrow>
      batch (add_record msgs r) app study =
        batch msgs app study @
          (if message_appId r = app \<and> study \<in> set (studyRecords r)
           then [message_parameters_of r] else [])) \<and>
   (map_of msgs app = None \<longrightarrow>
      add_study app mp msgs study = msgs @ [(app, [(study, [mp])])]) \<and>
   (\<forall>by_study. map_of msgs app = Some by_study \<and> map_of by_study study = None \<longrightarrow>
      add_study app mp msgs study = AList.update app (by_study @ [(study, [mp])]) msgs) \<and>
   (\<forall>by_study l. map_of msgs app = Some by_study \<and> map_of by_study study = Some l \<longrightarrow>
      add_study app mp msgs study = AList.update app (AList.update study (l @ [mp]) by_study) msgs) \<and>
   (lambda_handler ext am [rec1, rec2] = Inr (st, started) \<and>
    message_appId rec1 = a \<and> message_appId rec2 = a \<and> s1 \<noteq> s2 \<and>
    studyRecords rec1 = [s1] \<and> studyRecords rec2 = [s1, s2] \<longrightarrow>
      messages st =
        [(a, [(s1, [message_parameters_of rec1, message_parameters_of rec2]),
              (s2, [message_parameters_of rec2])])])"
proof (intro conjI impI allI)
  assume "distinct (studyRecords r)"
  then show "batch (add_record msgs r) app study =
        batch msgs app study @
          (if message_appId r = app \<and> study \<in> set (studyRecords r)
           then [message_parameters_of r] else [])"
    by (rule batch_add_record_distinct)
next
  assume "map_of msgs app = None"
  then show "add_study app mp msgs study = msgs @ [(app, [(study, [mp])])]"
    by (simp add: add_study_def update_new)
next
  fix by_study
  assume "map_of msgs app = Some by_study \<and> map_of by_study study = None"
  then show "add_study app mp msgs study = AList.update app (by_study @ [(study, [mp])]) msgs"
    by (simp add: add_study_def update_new)
next
  fix by_study l
  assume "map_of msgs app = Some by_study \<and> map_of by_study study = Some l"
  then show "add_study app mp msgs study =
      AList.update app (AList.update study (l @ [mp]) by_study) msgs"
    by (simp add: add_study_def)
next
  assume h: "lambda_handler ext am [rec1, rec2] = Inr (st, started) \<and>
    message_appId rec1 = a \<and> message_appId rec2 = a \<and> s1 \<noteq> s2 \<and>
    studyRecords rec1 = [s1] \<and> studyRecords rec2 = [s1, s2]"
  then have "messages st = foldl add_record [] [rec1, rec2]"
    using lambda_handler_messages by blast
  with h show "messages st =
        [(a, [(s1, [message_parameters_of rec1, message_parameters_of rec2]),
              (s2, [message_parameters_of rec2])])]"
    by (auto simp: add_study_def add_record_def)
qed

text \<open>
  The example of the specification, and its second record added to the batches that the
  first has left: \<^verbatim>\<open>s1\<close> is a known study of the app and \<^verbatim>\<open>s2\<close> a new one.
\<close>

theorem record_grouped_under_every_study_witness:
  "distinct (studyRecords (example_record ''invalid.zip'' [''s1'', ''s2'']))
   \<and> batch (add_record [(''app1'', [(''s1'', [example_parameters ''valid.zip''])])]
               (example_record ''invalid.zip'' [''s1'', ''s2''])) ''app1'' ''s2''
       = [example_parameters ''invalid.zip'']
   \<and> map_of [(''app1'', [(''s1'', [example_parameters ''valid.zip''])])] ''app1''
       = Some [(''s1'', [example_parameters ''valid.zip''])]
   \<and> map_of [(''s1'', [example_parameters ''valid.zip''])] ''s2'' = None
   \<and> add_study ''app1'' (example_parameters ''invalid.zip'')
        [(''app1'', [(''s1'', [example_parameters ''valid.zip''])])] ''s2''
       = [(''app1'', [(''s1'', [example_parameters ''valid.zip'']),
                      (''s2'', [example_parameters ''invalid.zip''])])]
   \<and> lambda_handler example_ext example_map
        [example_record ''valid.zip'' [''s1''], example_record ''invalid.zip'' [''s1'', ''s2'']]
       = Inr (example_final_state, example_started)
   \<and> ''s1'' \<noteq> ''s2''
   \<and> messages example_final_state =
       [(''app1'', [(''s1'', [example_parameters ''valid.zip'', example_parameters ''invalid.zip'']),
                    (''s2'', [example_parameters ''invalid.zip''])])]"
proof -
  let ?m = "[(''app1'', [(''s1'', [example_parameters ''valid.zip''])])]"
  let ?r1 = "example_record ''valid.zip'' [''s1'']"
  let ?r2 = "example_record ''invalid.zip'' [''s1'', ''s2'']"
  note t = record_grouped_under_every_study [of ?r2 ?m "''app1''" "''s2''"
      "example_parameters ''invalid.zip''" example_ext example_map ?r1 ?r2
      example_final_state example_started "''app1''" "''s1''" "''s2''"]
  have d: "distinct (studyRecords ?r2)"
    by (simp add: example_record_fields)
  have b0: "batch ?m ''app1'' ''s2'' = []"
    by (simp add: batch_def)
  from t d b0 have b: "batch (add_record ?m ?r2) ''app1'' ''s2'' = [example_parameters ''invalid.zip'']"
    by (simp add: example_record_fields)
  have m1: "map_of ?m ''app1'' = Some [(''s1'', [example_parameters ''valid.zip''])]"
    and m2: "map_of [(''s1'', [example_parameters ''valid.zip''])] ''s2'' = None"
    by simp_all
  from t m1 m2 have s: "add_study ''app1'' (example_parameters ''invalid.zip'') ?m ''s2''
       = [(''app1'', [(''s1'', [example_parameters ''valid.zip'']),
                      (''s2'', [example_parameters ''invalid.zip''])])]"
    by simp
  have l: "lambda_handler example_ext example_map [?r1, ?r2]
       = Inr (example_final_state, example_started)"
    using example_lambda_handler by (simp add: example_records_def)
  have n: "''s1'' \<noteq> ''s2''"
    by simp
  from t l n have f: "messages example_final_state =
       [(''app1'', [(''s1'', [example_parameters ''valid.zip'', example_parameters ''invalid.zip'']),
                    (''s2'', [example_parameters ''invalid.zip''])])]"
    by (simp add: example_record_fields)
  from d b m1 m2 s l n f show ?thesis by (intro conjI)
qed

lemma handle_records_append:
  "handle_records ext am st (xs @ ys) =
     and_then (handle_records ext am st xs) (\<lambda>st1. handle_records ext am st1 ys)"
proof (induction xs arbitrary: st)
  case Nil
  show ?case by simp
next
  case (Cons x xs)
  show ?case
    by (cases "handle_record ext am st x") (simp_all add: Cons.IH)
qed

lemma batch_add_record_mono: "set (batch msgs a s) \<subseteq> set (batch (add_record msgs r) a s)"
  by (simp add: batch_add_record)

lemma batch_aggregate_mono: "set (batch msgs a s) \<subseteq> set (batch (foldl add_record msgs rs) a s)"
proof (induction rs arbitrary: msgs)
  case Nil
  show ?case by simp
next
  case (Cons r rs)
  from Cons.IH [of "add_record msgs r"] batch_add_record_mono [of msgs a s r]
  show ?case by auto
qed

lemma batch_add_record_member:
  "study \<in> set (studyRecords r) \<Longrightarrow>
   message_parameters_of r \<in> set (batch (add_record msgs r) (message_appId r) study)"
  by (simp add: batch_add_record count_list_0_iff)

text \<open>
  The errors of the validation result do not reach the state of the handler: a record is
  added to the batches in the same way with errors and without.
\<close>

lemma handle_record_ignores_errors:
  "update_sts_tokens ext (rawFolderId r) (sts_tokens st) = Inr tokens \<Longrightarrow>
   validate_data ext (message_parameters_of r) am tokens = Inr vr \<Longrightarrow>
   handle_record ext am st r = Inr \<lparr>messages = add_record (messages st) r, sts_tokens = tokens\<rparr>"
  by (simp add: handle_record_def Let_def message_parameters_of_def)

text \<open>
  When the handler returns, the parameters of each record of the event, valid or not,
  are in the batch of each of its studies.
\<close>

lemma every_record_batched:
  assumes "lambda_handler ext am (pre @ r # post) = Inr (st, started)"
  shows "(\<forall>study \<in> set (studyRecords r).
            message_parameters_of r \<in> set (batch (messages st) (message_appId r) study))
       \<and> messages st = foldl add_record [] (pre @ r # post)"
proof -
  have m: "messages st = foldl add_record [] (pre @ r # post)"
    using assms by (rule lambda_handler_messages)
  have "message_parameters_of r \<in> set (batch (messages st) (message_appId r) study)"
    if "study \<in> set (studyRecords r)" for study
    using batch_add_record_member [OF that, of "foldl add_record [] pre"]
      batch_aggregate_mono [of "add_record (foldl add_record [] pre) r" "message_appId r" study post]
      m
    by auto
  with m show ?thesis by simp
qed

text \<open>
  Claim C5. A record with errors is not routed anywhere. The handler calls
  \<^verbatim>\<open>mark_as_invalid\<close> for it (lines 302-305), but the body of that function is \<^verbatim>\<open>pass\<close>:
  nothing is sent to the queue named by \<^verbatim>\<open>invalid_sqs\<close>, against the docstring of the
  handler (lines 263-264). Here the second record has an error in \<^verbatim>\<open>x.json\<close>; all that the
  handler returns and starts is the batches, which have the record under \<^verbatim>\<open>s1\<close> and
  \<^verbatim>\<open>s2\<close>, the tokens and the two workflow runs.
\<close>

theorem invalid_record_not_routed:
  "validate_data example_ext (example_parameters ''invalid.zip'') example_map example_tokens
     = Inr invalid_result
   \<and> errors invalid_result \<noteq> []
   \<and> lambda_handler example_ext example_map example_records
     = Inr (\<lparr>messages = example_batches, sts_tokens = example_tokens\<rparr>, example_started)
   \<and> example_parameters ''invalid.zip'' \<in> set (batch example_batches ''app1'' ''s1'')
   \<and> example_parameters ''invalid.zip'' \<in> set (batch example_batches ''app1'' ''s2'')
   \<and> map fst example_started = [''ns-app1-s1-S3ToJsonWorkflow'', ''ns-app1-s2-S3ToJsonWorkflow'']"
proof -
  have n: "errors invalid_result \<noteq> []"
    by (simp add: invalid_result_def)
  have l: "lambda_handler example_ext example_map example_records
     = Inr (\<lparr>messages = example_batches, sts_tokens = example_tokens\<rparr>, example_started)"
    using example_lambda_handler by (simp add: example_final_state_def)
  have b: "example_parameters ''invalid.zip'' \<in> set (batch example_batches ''app1'' ''s1'')"
    "example_parameters ''invalid.zip'' \<in> set (batch example_batches ''app1'' ''s2'')"
    by (simp_all add: batch_def example_batches_def)
  have w: "map fst example_started =
      [''ns-app1-s1-S3ToJsonWorkflow'', ''ns-app1-s2-S3ToJsonWorkflow'']"
    by (simp add: example_started_def)
  from validate_data_invalid n l b w show ?thesis by (intro conjI)
qed

lemma validate_files_append:
  "validate_files ext am z vr (xs @ ys) =
     and_then (validate_files ext am z vr xs) (\<lambda>r. validate_files ext am z r ys)"
proof (induction xs arbitrary: vr)
  case Nil
  show ?case by simp
next
  case (Cons x xs)
  show ?case
    by (cases "validate_file ext am z vr x") (simp_all add: Cons.IH)
qed

text \<open>
  Claim C4, as amended. A failure to fetch a schema document is an exception of
  \<^verbatim>\<open>validate_data\<close> for the record that has the file, and the handler catches nothing:
  the handler raises that exception, whatever records it has processed before the record
  and whatever records come after it.
\<close>

theorem fetch_failure_aborts_invocation:
  assumes "handle_records ext am initial_state pre = Inr st1"
    and "update_sts_tokens ext (rawFolderId r) (sts_tokens st1) = Inr tokens"
    and "map_of tokens (rawFolderId r) = Some token"
    and "get_object ext token (s3Bucket r) (s3Key r) = Inr s3_obj"
    and "read_metadata ext s3_obj = Inr vr0"
    and "zip_members ext (Body s3_obj) = Inr z"
    and "map fst z = fpre @ json_path # fpost"
    and "validate_files ext am z vr0 fpre = Inr vr1"
    and "url (resolution ext am vr1 json_path) = Some u"
    and "requests_get_json ext u = Inl e"
  shows "validate_data ext (message_parameters_of r) am tokens = Inl e
       \<and> lambda_handler ext am (pre @ r # post) = Inl e"
proof -
  have f: "validate_file ext am z vr1 json_path = Inl e"
    using assms(9,10) by (simp add: validate_file_resolution)
  have "validate_files ext am z vr0 (map fst z) = Inl e"
    using assms(7,8) f by (simp add: validate_files_append)
  then have v: "validate_data ext (message_parameters_of r) am tokens = Inl e"
    using assms(3-6) by (simp add: validate_data_def getitem_def message_parameters_of_def)
  have "handle_record ext am st1 r = Inl e"
    using assms(2) v by (simp add: handle_record_def Let_def message_parameters_of_def)
  then have "handle_records ext am initial_state (pre @ r # post) = Inl e"
    using assms(1) by (simp add: handle_records_append)
  then have "lambda_handler ext am (pre @ r # post) = Inl e"
    by (simp add: lambda_handler_def)
  with v show ?thesis by simp
qed

text \<open>
  An event of three records. The first is processed; in the archive of the second the
  first member has no schema and the schema document of the second member cannot be
  fetched; the handler raises the error of the fetch, with a third record still to come.
\<close>

theorem fetch_failure_aborts_invocation_witness:
  "handle_records example_ext example_map initial_state [example_record ''valid.zip'' [''s1'']]
     = Inr \<lparr>messages = [(''app1'', [(''s1'', [example_parameters ''valid.zip''])])],
            sts_tokens = example_tokens\<rparr>
   \<and> update_sts_tokens example_ext (rawFolderId (example_record ''late.zip'' [''s2'']))
        (sts_tokens \<lparr>messages = [(''app1'', [(''s1'', [example_parameters ''valid.zip''])])],
                      sts_tokens = example_tokens\<rparr>) = Inr example_tokens
   \<and> map_of example_tokens (rawFolderId (example_record ''late.zip'' [''s2'']))
        = Some [(''aws_session_token'', ''syn1'')]
   \<and> get_object example_ext [(''aws_session_token'', ''syn1'')]
        (s3Bucket (example_record ''late.zip'' [''s2'']))
        (s3Key (example_record ''late.zip'' [''s2'']))
        = Inr (example_object ''A2'' ''appVersion=42,osName=iOS'' ''r6'' ''late'')
   \<and> read_metadata example_ext
        (example_object ''A2'' ''appVersion=42,osName=iOS'' ''r6'' ''late'')
        = Inr (example_result ''A2'' ''r6'')
   \<and> zip_members example_ext
        (Body (example_object ''A2'' ''appVersion=42,osName=iOS'' ''r6'' ''late''))
        = Inr [(''unknown.json'', ''{}''), (''x.json'', ''{}'')]
   \<and> map fst [(''unknown.json'', ''{}''), (''x.json'', ''{}'')] = [''unknown.json''] @ ''x.json'' # []
   \<and> validate_files example_ext example_map [(''unknown.json'', ''{}''), (''x.json'', ''{}'')]
        (example_result ''A2'' ''r6'') [''unknown.json'']
        = Inr (example_result ''A2'' ''r6'')
   \<and> url (resolution example_ext example_map (example_result ''A2'' ''r6'') ''x.json'')
        = Some ''http://s/gone.json''
   \<and> requests_get_json example_ext ''http://s/gone.json'' = Inl (External ''ConnectionError'')
   \<and> validate_data example_ext (message_parameters_of (example_record ''late.zip'' [''s2'']))
        example_map example_tokens = Inl (External ''ConnectionError'')
   \<and> lambda_handler example_ext example_map
        ([example_record ''valid.zip'' [''s1'']] @ example_record ''late.zip'' [''s2'']
           # [example_record ''invalid.zip'' [''s1'', ''s2'']])
        = Inl (External ''ConnectionError'')"
proof -
  let ?r = "example_record ''late.zip'' [''s2'']"
  let ?obj = "example_object ''A2'' ''appVersion=42,osName=iOS'' ''r6'' ''late''"
  let ?z = "[(''unknown.json'', ''{}''), (''x.json'', ''{}'')]"
  let ?st = "\<lparr>messages = [(''app1'', [(''s1'', [example_parameters ''valid.zip''])])],
            sts_tokens = example_tokens\<rparr>"
  have h1: "handle_records example_ext example_map initial_state
      [example_record ''valid.zip'' [''s1'']] = Inr ?st"
    by (simp add: example_handle_valid example_first_batches)
  have h2: "update_sts_tokens example_ext (rawFolderId ?r) (sts_tokens ?st) = Inr example_tokens"
    by (simp add: example_record_fields example_update_sts_tokens)
  have h3: "map_of example_tokens (rawFolderId ?r) = Some [(''aws_session_token'', ''syn1'')]"
    by (simp add: example_record_fields example_tokens_def)
  have h4: "get_object example_ext [(''aws_session_token'', ''syn1'')] (s3Bucket ?r) (s3Key ?r)
      = Inr ?obj"
    by (simp add: example_record_fields example_get_object)
  have h5: "read_metadata example_ext ?obj = Inr (example_result ''A2'' ''r6'')"
    by (rule example_read_metadata)
  have h6: "zip_members example_ext (Body ?obj) = Inr ?z"
    by (simp add: example_metadata example_zip_members)
  have h7: "map fst ?z = [''unknown.json''] @ ''x.json'' # []"
    by simp
  have h8: "validate_files example_ext example_map ?z (example_result ''A2'' ''r6'')
      [''unknown.json''] = Inr (example_result ''A2'' ''r6'')"
    by (simp add: validate_file_resolution example_resolution)
  have h9: "url (resolution example_ext example_map (example_result ''A2'' ''r6'') ''x.json'')
        = Some ''http://s/gone.json''"
    by (simp add: example_resolution)
  have h10: "requests_get_json example_ext ''http://s/gone.json'' = Inl (External ''ConnectionError'')"
    by (simp add: example_fetch)
  note t = fetch_failure_aborts_invocation [OF h1 h2 h3 h4 h5 h6 h7 h8 h9 h10,
      of "[example_record ''invalid.zip'' [''s1'', ''s2'']]"]
  from t have v: "validate_data example_ext (message_parameters_of ?r) example_map example_tokens
      = Inl (External ''ConnectionError'')"
    by (rule conjunct1)
  from t have c: "lambda_handler example_ext example_map
        ([example_record ''valid.zip'' [''s1'']] @ ?r # [example_record ''invalid.zip'' [''s1'', ''s2'']])
        = Inl (External ''ConnectionError'')"
    by (rule conjunct2)
  from h1 h2 h3 h4 h5 h6 h7 h8 h9 h10 v c show ?thesis by (intro conjI)
qed

text \<open>
  The two example records alone are processed and their workflow runs are started; after
  a record whose schema document cannot be fetched they are not processed: the handler
  raises.
\<close>

theorem fetch_failure_not_isolated:
  "lambda_handler example_ext example_map example_records
     = Inr (example_final_state, example_started)
   \<and> lambda_handler example_ext example_map
       (example_record ''unfetchable.zip'' [''s1''] # example_records)
     = Inl (External ''ConnectionError'')"
proof -
  have "handle_record example_ext example_map initial_state
          (example_record ''unfetchable.zip'' [''s1'']) = Inl (External ''ConnectionError'')"
    by (simp add: handle_record_def example_record_fields initial_state_def
          example_update_sts_tokens validate_data_unfetchable)
  then have "lambda_handler example_ext example_map
       (example_record ''unfetchable.zip'' [''s1''] # example_records)
     = Inl (External ''ConnectionError'')"
    by (simp add: lambda_handler_def)
  with example_lambda_handler show ?thesis by simp
qed

end
